theory Spec2Isabelle
  imports Main "HOL-Library.Char_ord" "HOL-Library.List_Lexorder"
begin

section \<open>docker-compose-bundler: a model of main.go\<close>

text \<open>
  Go strings are byte sequences, modelled as \<open>string\<close> (a list of 8-bit \<open>char\<close>).
  A Go map with string keys is modelled as an association list without duplicate keys;
  ranging over the map visits the list in its order, which stands for the order the Go
  runtime happens to choose.  The container engine, the YAML library, the operating
  system and the path/filepath package are collaborators outside main.go: their answers
  are parameters of the model (the records \<open>engine\<close> and \<open>host\<close>), and every call to the
  engine is recorded in a trace.
\<close>

subsection \<open>Strings\<close>

definition HasPrefix :: "string \<Rightarrow> string \<Rightarrow> bool" where
  "HasPrefix s prefix = (take (length prefix) s = prefix)"

text \<open>
  \<open>strings.NewReplacer\<close> with one-byte old and new strings replaces byte by byte; of two
  pairs with the same old byte the first one wins.
\<close>

definition byteReplace :: "(char \<times> char) list \<Rightarrow> char \<Rightarrow> char" where
  "byteReplace pairs c = (case map_of pairs c of Some n \<Rightarrow> n | None \<Rightarrow> c)"

definition replacerPairs :: "(char \<times> char) list" where
  "replacerPairs =
     [(CHR ''/'', CHR ''-''), (CHR '':'', CHR ''-''), (CHR 0x5C, CHR ''-''),
      (CHR ''*'', CHR ''-''), (CHR ''?'', CHR ''-''), (CHR 0x22, CHR ''-''),
      (CHR ''<'', CHR ''-''), (CHR ''>'', CHR ''-''), (CHR ''|'', CHR ''-'')]"

definition sanitizeFilename :: "string \<Rightarrow> string" where
  "sanitizeFilename name = map (byteReplace replacerPairs) name"

text \<open>The nine characters named by the replacer, for stating what it does.\<close>

definition disallowed :: "char set" where
  "disallowed = {CHR ''/'', CHR '':'', CHR 0x5C, CHR ''*'', CHR ''?'', CHR 0x22,
                 CHR ''<'', CHR ''>'', CHR ''|''}"

subsection \<open>Regular expressions and the semantic-version pattern\<close>

text \<open>
  The pattern of \<open>isValidSemver\<close> is written as a term of a small regular-expression
  type and run by a derivative matcher.  The pattern is anchored by \<open>^\<close> and \<open>$\<close>
  (no multi-line flag), so \<open>MatchString\<close> holds exactly when the whole string matches.
  Bytes above 127 belong to none of the classes of the pattern, as in Go, where such
  bytes are part of non-ASCII runes.
\<close>

datatype rexp = NoMatch | Eps | Class "char \<Rightarrow> bool" | Alt rexp rexp | Seq rexp rexp | Star rexp

definition Lit :: "char \<Rightarrow> rexp" where
  "Lit c = Class (\<lambda>x. x = c)"

definition Opt :: "rexp \<Rightarrow> rexp" where
  "Opt r = Alt r Eps"

definition Plus1 :: "rexp \<Rightarrow> rexp" where
  "Plus1 r = Seq r (Star r)"

fun nullable :: "rexp \<Rightarrow> bool" where
  "nullable NoMatch = False"
| "nullable Eps = True"
| "nullable (Class p) = False"
| "nullable (Alt r s) = (nullable r \<or> nullable s)"
| "nullable (Seq r s) = (nullable r \<and> nullable s)"
| "nullable (Star r) = True"

fun deriv :: "char \<Rightarrow> rexp \<Rightarrow> rexp" where
  "deriv c NoMatch = NoMatch"
| "deriv c Eps = NoMatch"
| "deriv c (Class p) = (if p c then Eps else NoMatch)"
| "deriv c (Alt r s) = Alt (deriv c r) (deriv c s)"
| "deriv c (Seq r s) =
     (if nullable r then Alt (Seq (deriv c r) s) (deriv c s) else Seq (deriv c r) s)"
| "deriv c (Star r) = Seq (deriv c r) (Star r)"

fun matches :: "rexp \<Rightarrow> string \<Rightarrow> bool" where
  "matches r [] = nullable r"
| "matches r (c # cs) = matches (deriv c r) cs"

definition isDigit :: "char \<Rightarrow> bool" where
  "isDigit c = (CHR ''0'' \<le> c \<and> c \<le> CHR ''9'')"

definition isNonZeroDigit :: "char \<Rightarrow> bool" where
  "isNonZeroDigit c = (CHR ''1'' \<le> c \<and> c \<le> CHR ''9'')"

definition isWord :: "char \<Rightarrow> bool" where
  "isWord c = (isDigit c \<or> (CHR ''A'' \<le> c \<and> c \<le> CHR ''Z'') \<or> c = CHR ''_''
               \<or> (CHR ''a'' \<le> c \<and> c \<le> CHR ''z''))"

definition isIdentChar :: "char \<Rightarrow> bool" where
  "isIdentChar c = (isWord c \<or> c = CHR ''.'' \<or> c = CHR ''-'')"

text \<open>\<open>(0|[1-9]\d*)\<close>\<close>

definition numberRegex :: rexp where
  "numberRegex = Alt (Lit CHR ''0'') (Seq (Class isNonZeroDigit) (Star (Class isDigit)))"

text \<open>\<open>^v?(0|[1-9]\d*)\.(0|[1-9]\d*)\.(0|[1-9]\d*)(?:-[\w\.-]+)?(?:\+[\w\.-]+)?$\<close>\<close>

definition semverRegex :: rexp where
  "semverRegex =
     Seq (Opt (Lit CHR ''v''))
    (Seq numberRegex (Seq (Lit CHR ''.'')
    (Seq numberRegex (Seq (Lit CHR ''.'')
    (Seq numberRegex
    (Seq (Opt (Seq (Lit CHR ''-'') (Plus1 (Class isIdentChar))))
         (Opt (Seq (Lit CHR ''+'') (Plus1 (Class isIdentChar))))))))))"

definition isValidSemver :: "string \<Rightarrow> bool" where
  "isValidSemver version = matches semverRegex version"

text \<open>The language of a regular expression, to state what the matcher decides.\<close>

definition conc :: "string set \<Rightarrow> string set \<Rightarrow> string set" where
  "conc A B = {u @ v | u v. u \<in> A \<and> v \<in> B}"

inductive_set star :: "string set \<Rightarrow> string set" for A :: "string set" where
  star_nil: "[] \<in> star A"
| star_app: "u \<in> A \<Longrightarrow> v \<in> star A \<Longrightarrow> u @ v \<in> star A"

fun lang :: "rexp \<Rightarrow> string set" where
  "lang NoMatch = {}"
| "lang Eps = {[]}"
| "lang (Class p) = {[c] | c. p c}"
| "lang (Alt r s) = lang r \<union> lang s"
| "lang (Seq r s) = conc (lang r) (lang s)"
| "lang (Star r) = star (lang r)"

text \<open>
  The grammar in the words of the specification: MAJOR.MINOR.PATCH with an optional leading
  \<open>v\<close>, an optional \<open>-pre\<close> part and an optional \<open>+build\<close> part.  A number is \<open>0\<close> or a
  digit string without leading zero; \<open>pre\<close> and \<open>build\<close> are non-empty strings of letters,
  digits, \<open>_\<close>, \<open>.\<close> and \<open>-\<close>.
\<close>

definition numericId :: "string \<Rightarrow> bool" where
  "numericId n =
     (case n of [] \<Rightarrow> False
      | d # ds \<Rightarrow> (d = CHR ''0'' \<and> ds = []) \<or> (isNonZeroDigit d \<and> list_all isDigit ds))"

definition identPart :: "string \<Rightarrow> bool" where
  "identPart w = (w \<noteq> [] \<and> list_all isIdentChar w)"

definition semverGrammar :: "string \<Rightarrow> bool" where
  "semverGrammar s =
     (\<exists>v major minor patch pre bld.
        s = v @ major @ ''.'' @ minor @ ''.'' @ patch @ pre @ bld \<and>
        (v = [] \<or> v = ''v'') \<and> numericId major \<and> numericId minor \<and> numericId patch \<and>
        (pre = [] \<or> (\<exists>w. pre = CHR ''-'' # w \<and> identPart w)) \<and>
        (bld = [] \<or> (\<exists>w. bld = CHR ''+'' # w \<and> identPart w)))"

subsection \<open>Data model\<close>

text \<open>
  A field of Go type \<open>interface{}\<close> filled by the YAML decoder holds one of these values;
  \<open>YNull\<close> is Go's \<open>nil\<close>.
\<close>

datatype yaml_value =
    YNull
  | YString string
  | YInt int
  | YBool bool
  | YSeq "yaml_value list"
  | YMap "(string \<times> yaml_value) list"

record XBundle =
  Name :: string
  Version :: string

record BuildConfig =
  Context :: string
  Dockerfile :: string
  Args :: "(string \<times> string) list"

text \<open>
  Of a service, the resolver reads and writes \<open>Image\<close> and \<open>Build\<close> only; the other fields
  of the Go struct are carried along unchanged and are left out.  The same holds for the
  sections of the compose document other than \<open>services\<close> and \<open>x-bundle\<close>.
\<close>

record Service =
  Image :: string
  Build :: yaml_value

record DockerCompose =
  Services :: "(string \<times> Service) list"
  XBundle :: "XBundle option"

datatype error =
    Msg string
  | MissingXBundle
  | MissingName
  | MissingVersion
  | InvalidVersion
  | InvalidBuildType
  | BuildErrorFrame string
  | PullErrorFrame string
  | Wrapped string error

text \<open>Assignment \<open>m[k] = v\<close> to a Go map.\<close>

fun mapSet :: "'k \<Rightarrow> 'v \<Rightarrow> ('k \<times> 'v) list \<Rightarrow> ('k \<times> 'v) list" where
  "mapSet k v [] = [(k, v)]"
| "mapSet k v ((k', v') # kvs) = (if k = k' then (k, v) # kvs else (k', v') # mapSet k v kvs)"

subsection \<open>Files, directory walks and tar streams\<close>

text \<open>
  A directory holds its entries in the order \<open>readDirNames\<close> returns them: sorted by
  name.  \<open>Unreadable\<close> is a file that \<open>os.Open\<close> cannot open, \<open>UnreadableDir\<close> a directory
  that cannot be listed.  The texts of the two loader scripts and of the README are
  constants of the source and stand here as \<open>LoadScript\<close>, \<open>BatScript\<close> and \<open>Readme\<close>.
\<close>

datatype file_data = Bytes string | LoadScript | BatScript | Readme

datatype node =
    FileNode file_data
  | Unreadable
  | DirNode "(string \<times> node) list"
  | UnreadableDir

fun IsDir :: "node \<Rightarrow> bool" where
  "IsDir (DirNode es) = True"
| "IsDir UnreadableDir = True"
| "IsDir n = False"

text \<open>Creating or replacing a file in a directory, keeping the listing sorted.\<close>

fun dirPut :: "string \<Rightarrow> node \<Rightarrow> (string \<times> node) list \<Rightarrow> (string \<times> node) list" where
  "dirPut name n [] = [(name, n)]"
| "dirPut name n ((name', n') # es) =
     (if name = name' then (name, n) # es
      else if name < name' then (name, n) # (name', n') # es
      else (name', n') # dirPut name n es)"

text \<open>
  A tar entry is a header name with what follows the header: nothing for a directory,
  the file's bytes, or nothing at all when the file could not be opened after its
  header had been written.
\<close>

datatype entry_body = DirBody | FileBody file_data | NoBody

type_synonym tar_entry = "string \<times> entry_body"

datatype walk_error = SkipDir | Failure error

text \<open>
  \<open>filepath.Walk\<close>.  The walk function gets the path relative to the root (what
  \<open>filepath.Rel\<close> computes in both callbacks of main.go), the node, and the error of
  listing the directory.  \<open>SkipDir\<close> returned for a directory skips that directory;
  returned for a file it ends the walk of the containing directory.  The relative path
  of an entry is that of its directory, the separator and its name; the root is \<open>.\<close>.
\<close>

definition joinRel :: "char \<Rightarrow> string \<Rightarrow> string \<Rightarrow> string" where
  "joinRel sep rel name = (if rel = ''.'' then name else rel @ [sep] @ name)"

type_synonym 'w walk_fn = "string \<Rightarrow> node \<Rightarrow> error option \<Rightarrow> 'w \<Rightarrow> walk_error option \<times> 'w"

fun walk :: "'w walk_fn \<Rightarrow> char \<Rightarrow> string \<Rightarrow> node \<Rightarrow> 'w \<Rightarrow> walk_error option \<times> 'w"
  and walkNames :: "'w walk_fn \<Rightarrow> char \<Rightarrow> string \<Rightarrow> (string \<times> node) list \<Rightarrow> 'w
                     \<Rightarrow> walk_error option \<times> 'w" where
  "walk fn sep rel (DirNode es) w =
     (case fn rel (DirNode es) None w of
        (None, w') \<Rightarrow> walkNames fn sep rel es w'
      | (Some e, w') \<Rightarrow> (Some e, w'))"
| "walk fn sep rel UnreadableDir w = fn rel UnreadableDir (Some (Msg ''cannot read directory'')) w"
| "walk fn sep rel (FileNode d) w = fn rel (FileNode d) None w"
| "walk fn sep rel Unreadable w = fn rel Unreadable None w"
| "walkNames fn sep rel [] w = (None, w)"
| "walkNames fn sep rel ((name, n) # es) w =
     (case walk fn sep (joinRel sep rel name) n w of
        (None, w') \<Rightarrow> walkNames fn sep rel es w'
      | (Some SkipDir, w') \<Rightarrow> (if IsDir n then walkNames fn sep rel es w' else (Some SkipDir, w'))
      | (Some (Failure e), w') \<Rightarrow> (Some (Failure e), w'))"

text \<open>The root is given as the result of \<open>os.Lstat\<close>: \<open>None\<close> when it does not exist.\<close>

definition Walk :: "'w walk_fn \<Rightarrow> char \<Rightarrow> node option \<Rightarrow> 'w \<Rightarrow> error option \<times> 'w" where
  "Walk fn sep root w =
     (case (case root of
              None \<Rightarrow> fn ''.'' Unreadable (Some (Msg ''no such file or directory'')) w
            | Some n \<Rightarrow> walk fn sep ''.'' n w) of
        (None, w') \<Rightarrow> (None, w')
      | (Some SkipDir, w') \<Rightarrow> (None, w')
      | (Some (Failure e), w') \<Rightarrow> (Some e, w'))"

definition ToSlash :: "char \<Rightarrow> string \<Rightarrow> string" where
  "ToSlash sep path = (if sep = CHR ''/'' then path
                       else map (\<lambda>c. if c = sep then CHR ''/'' else c) path)"

text \<open>What both walk functions do once a path is to be archived (header, then body).\<close>

definition writeEntry :: "char \<Rightarrow> string \<Rightarrow> node \<Rightarrow> tar_entry list
                            \<Rightarrow> walk_error option \<times> tar_entry list" where
  "writeEntry sep relPath n w =
     (case n of
        DirNode es \<Rightarrow> (None, w @ [(ToSlash sep relPath, DirBody)])
      | UnreadableDir \<Rightarrow> (None, w @ [(ToSlash sep relPath, DirBody)])
      | FileNode d \<Rightarrow> (None, w @ [(ToSlash sep relPath, FileBody d)])
      | Unreadable \<Rightarrow>
          (Some (Failure (Msg ''open: permission denied'')), w @ [(ToSlash sep relPath, NoBody)]))"

definition tarGzFn :: "char \<Rightarrow> tar_entry list walk_fn" where
  "tarGzFn sep relPath n err w =
     (case err of
        Some e \<Rightarrow> (Some (Failure e), w)
      | None \<Rightarrow> if relPath = ''.'' then (None, w) else writeEntry sep relPath n w)"

definition buildContextFn :: "char \<Rightarrow> tar_entry list walk_fn" where
  "buildContextFn sep relPath n err w =
     (case err of
        Some e \<Rightarrow> (Some (Failure e), w)
      | None \<Rightarrow> if HasPrefix relPath ''.git'' then (Some SkipDir, w)
                else writeEntry sep relPath n w)"

text \<open>
  \<open>createBuildContextTar\<close> starts the walk in a goroutine that writes into a pipe and
  returns the reading end at once, with a nil error.  The model returns what the
  reader receives until the producer closes the pipe, and the returned error; the
  result of \<open>filepath.Walk\<close> is dropped, as in the source.
\<close>

definition createBuildContextTar :: "char \<Rightarrow> node option \<Rightarrow> tar_entry list \<times> error option" where
  "createBuildContextTar sep contextRoot =
     (case Walk (buildContextFn sep) sep contextRoot [] of (walkResult, stream) \<Rightarrow> (stream, None))"

subsection \<open>The container engine, the host and the run state\<close>

record ImageBuildOptions =
  OptDockerfile :: string
  Tags :: "string list"
  Remove :: bool
  BuildArgs :: "(string \<times> string) list"

datatype engine_call =
    ImageBuild "tar_entry list" ImageBuildOptions
  | ImageInspect string
  | ImagePull string
  | ImageSave string
  | ImageRemove string

text \<open>
  One JSON message of a build or pull response: its text (\<open>stream\<close> or \<open>status\<close>) and its
  \<open>error\<close> field; \<open>BadFrame\<close> is input the decoder rejects.  The end of the list is EOF.
\<close>

datatype frame = Frame string string | BadFrame error

text \<open>
  The engine answers a call as a function of the calls made before it.  \<open>inspectResp\<close>
  is \<open>None\<close> when the image is present; \<open>saveResp\<close> gives the exported bytes and the
  error, if any, that ends the copy into the file.
\<close>

record engine =
  inspectResp :: "engine_call list \<Rightarrow> string \<Rightarrow> error option"
  pullResp :: "engine_call list \<Rightarrow> string \<Rightarrow> error + frame list"
  buildResp :: "engine_call list \<Rightarrow> tar_entry list \<Rightarrow> ImageBuildOptions \<Rightarrow> error + frame list"
  saveResp :: "engine_call list \<Rightarrow> string \<Rightarrow> error + string \<times> error option"
  removeResp :: "engine_call list \<Rightarrow> string \<Rightarrow> error option"

text \<open>
  The host: path/filepath for the platform (\<open>Separator\<close> is \<open>/\<close> or \<open>\\<close>), the directory
  tree found at a path, the YAML library (reading and decoding the manifest, re-coding a
  build mapping into a \<open>BuildConfig\<close>, encoding the manifest), and the errors of the
  file-system calls of \<open>Bundle\<close>.
\<close>

record host =
  Separator :: char
  IsAbs :: "string \<Rightarrow> bool"
  Join :: "string \<Rightarrow> string \<Rightarrow> string"
  DirOf :: "string \<Rightarrow> string"
  Lstat :: "string \<Rightarrow> node option"
  readCompose :: "string \<Rightarrow> error + DockerCompose"
  yamlBuildConfig :: "(string \<times> yaml_value) list \<Rightarrow> error + BuildConfig"
  yamlMarshal :: "DockerCompose \<Rightarrow> error + string"
  MkdirTemp :: "error option"
  MkdirAll :: "error option"
  Create :: "string \<Rightarrow> error option"
  WriteFile :: "string \<Rightarrow> error option"
  NewClient :: "error option"

datatype log_event =
    Usage
  | Fatal error
  | Success string
  | Building string string
  | BuildOutput string
  | AlreadyExists string
  | Pulling string
  | Saving string string
  | RemovingBuilt string
  | WarnRemoveBuilt string error
  | RemovingPulled string
  | WarnRemovePulled string error
  | WarnCleanupBuilt error
  | WarnCleanupPulled error

text \<open>
  The state a run changes: the engine calls made so far, the bundler's
  \<open>freshlyPulledImages\<close> map, what was printed, and the archive written to the output
  file (its entries; the gzip layer is left out).
\<close>

record state =
  calls :: "engine_call list"
  freshlyPulledImages :: "(string \<times> bool) list"
  stdout :: "log_event list"
  written :: "tar_entry list option"

definition print :: "log_event \<Rightarrow> state \<Rightarrow> state" where
  "print ev st = st\<lparr>stdout := stdout st @ [ev]\<rparr>"

definition called :: "engine_call \<Rightarrow> state \<Rightarrow> state" where
  "called c st = st\<lparr>calls := calls st @ [c]\<rparr>"

subsection \<open>The resolver\<close>

text \<open>The checks of the \<open>x-bundle\<close> block at the head of \<open>Bundle\<close> (lines 104 to 116).\<close>

definition validateXBundle :: "DockerCompose \<Rightarrow> error + XBundle" where
  "validateXBundle compose =
     (case XBundle compose of
        None \<Rightarrow> Inl MissingXBundle
      | Some xb \<Rightarrow>
          if Name xb = [] then Inl MissingName
          else if Version xb = [] then Inl MissingVersion
          else if \<not> isValidSemver (Version xb) then Inl InvalidVersion
          else Inr xb)"

definition parseBuildConfig :: "host \<Rightarrow> yaml_value \<Rightarrow> error + BuildConfig" where
  "parseBuildConfig h build =
     (case build of
        YString v \<Rightarrow> Inr \<lparr>Context = v, Dockerfile = [], Args = []\<rparr>
      | YMap v \<Rightarrow> yamlBuildConfig h v
      | _ \<Rightarrow> Inl InvalidBuildType)"

fun readBuildOutput :: "frame list \<Rightarrow> state \<Rightarrow> error option \<times> state" where
  "readBuildOutput [] st = (None, st)"
| "readBuildOutput (BadFrame err # fs) st = (Some err, st)"
| "readBuildOutput (Frame stream err # fs) st =
     (if err \<noteq> [] then (Some (BuildErrorFrame err), st)
      else readBuildOutput fs (if stream \<noteq> [] then print (BuildOutput stream) st else st))"

fun readPullOutput :: "frame list \<Rightarrow> error option" where
  "readPullOutput [] = None"
| "readPullOutput (BadFrame err # fs) = Some err"
| "readPullOutput (Frame status err # fs) =
     (if err \<noteq> [] then Some (PullErrorFrame err) else readPullOutput fs)"

definition buildImage :: "host \<Rightarrow> engine \<Rightarrow> BuildConfig \<Rightarrow> string \<Rightarrow> string \<Rightarrow> state
                            \<Rightarrow> error option \<times> state" where
  "buildImage h e config baseDir imageName st =
     (let buildContext = (if IsAbs h (Context config) then Context config
                          else Join h baseDir (Context config));
          dockerfile = (if Dockerfile config = [] then ''Dockerfile'' else Dockerfile config);
          st1 = print (Building imageName buildContext) st
      in case createBuildContextTar (Separator h) (Lstat h buildContext) of
           (buildContextTar, Some err) \<Rightarrow> (Some err, st1)
         | (buildContextTar, None) \<Rightarrow>
             (let buildOptions = \<lparr>OptDockerfile = dockerfile, Tags = [imageName],
                                  Remove = True, BuildArgs = Args config\<rparr>;
                  st2 = called (ImageBuild buildContextTar buildOptions) st1
              in case buildResp e (calls st1) buildContextTar buildOptions of
                   Inl err \<Rightarrow> (Some err, st2)
                 | Inr frames \<Rightarrow> readBuildOutput frames st2))"

definition pullImageIfNotExists :: "engine \<Rightarrow> string \<Rightarrow> state \<Rightarrow> error option \<times> state" where
  "pullImageIfNotExists e imageName st =
     (let st1 = called (ImageInspect imageName) st
      in case inspectResp e (calls st) imageName of
           None \<Rightarrow> (None, print (AlreadyExists imageName) st1)
         | Some notFound \<Rightarrow>
             (let st2 = print (Pulling imageName) st1;
                  st3 = called (ImagePull imageName) st2
              in case pullResp e (calls st2) imageName of
                   Inl err \<Rightarrow> (Some err, st3)
                 | Inr frames \<Rightarrow>
                     (readPullOutput frames,
                      st3\<lparr>freshlyPulledImages :=
                            mapSet imageName True (freshlyPulledImages st3)\<rparr>)))"

text \<open>
  The Go function changes the service through a pointer; the model returns the service
  as it is left.
\<close>

definition processServiceWithBundle ::
  "host \<Rightarrow> engine \<Rightarrow> string \<Rightarrow> Service \<Rightarrow> string \<Rightarrow> string \<Rightarrow> string \<Rightarrow> state
     \<Rightarrow> (error + string) \<times> Service \<times> state" where
  "processServiceWithBundle h e serviceName service baseDir bundleName bundleVersion st =
     (if Build service \<noteq> YNull then
        (let imageName = ''bundles/'' @ bundleName @ ''/'' @ serviceName @ '':'' @ bundleVersion
         in case parseBuildConfig h (Build service) of
              Inl err \<Rightarrow> (Inl err, service, st)
            | Inr buildConfig \<Rightarrow>
                (case buildImage h e buildConfig baseDir imageName st of
                   (Some err, st') \<Rightarrow> (Inl err, service, st')
                 | (None, st') \<Rightarrow>
                     (Inr imageName, service\<lparr>Image := imageName, Build := YNull\<rparr>, st')))
      else if Image service \<noteq> [] then
        (case pullImageIfNotExists e (Image service) st of
           (Some err, st') \<Rightarrow> (Inl err, service, st')
         | (None, st') \<Rightarrow> (Inr (Image service), service, st'))
      else (Inr [], service, st))"

subsection \<open>Export, assembly and cleanup\<close>

text \<open>
  The loop of \<open>Bundle\<close> over \<open>compose.Services\<close>.  It writes back only the entry it is
  visiting, so it visits the entries the map had at the start.
\<close>

fun processServices ::
  "host \<Rightarrow> engine \<Rightarrow> string \<Rightarrow> string \<Rightarrow> string \<Rightarrow> (string \<times> Service) list
     \<Rightarrow> (string \<times> Service) list \<Rightarrow> (string \<times> string) list \<Rightarrow> state
     \<Rightarrow> error option \<times> (string \<times> Service) list \<times> (string \<times> string) list \<times> state" where
  "processServices h e baseDir bundleName bundleVersion [] services imageMap st =
     (None, services, imageMap, st)"
| "processServices h e baseDir bundleName bundleVersion ((serviceName, service) # rest)
       services imageMap st =
     (case processServiceWithBundle h e serviceName service baseDir bundleName bundleVersion st of
        (Inl err, service', st') \<Rightarrow>
          (Some (Wrapped (''failed to process service '' @ serviceName) err),
           services, imageMap, st')
      | (Inr imageName, service', st') \<Rightarrow>
          if imageName \<noteq> [] then
            processServices h e baseDir bundleName bundleVersion rest
              (mapSet serviceName service' services)
              (mapSet imageName (sanitizeFilename imageName @ ''.tar'') imageMap) st'
          else processServices h e baseDir bundleName bundleVersion rest services imageMap st')"

text \<open>
  \<open>saveImage\<close> returns the bytes it left in the file it created, if it got as far as
  creating it.  The file is named by its name inside \<open>images/\<close>.
\<close>

definition saveImage :: "host \<Rightarrow> engine \<Rightarrow> string \<Rightarrow> string \<Rightarrow> state
                           \<Rightarrow> error option \<times> string option \<times> state" where
  "saveImage h e imageName tarFileName st =
     (let st1 = print (Saving imageName tarFileName) st;
          st2 = called (ImageSave imageName) st1
      in case saveResp e (calls st1) imageName of
           Inl err \<Rightarrow> (Some err, None, st2)
         | Inr (bytes, copyErr) \<Rightarrow>
             (case Create h tarFileName of
                Some err \<Rightarrow> (Some err, None, st2)
              | None \<Rightarrow> (copyErr, Some bytes, st2)))"

fun saveImages :: "host \<Rightarrow> engine \<Rightarrow> (string \<times> string) list \<Rightarrow> (string \<times> node) list \<Rightarrow> state
                     \<Rightarrow> error option \<times> (string \<times> node) list \<times> state" where
  "saveImages h e [] imagesDir st = (None, imagesDir, st)"
| "saveImages h e ((imageName, tarFileName) # rest) imagesDir st =
     (case saveImage h e imageName tarFileName st of
        (Some err, file, st') \<Rightarrow>
          (Some (Wrapped (''failed to save image '' @ imageName) err), imagesDir, st')
      | (None, None, st') \<Rightarrow> saveImages h e rest imagesDir st'
      | (None, Some bytes, st') \<Rightarrow>
          saveImages h e rest (dirPut tarFileName (FileNode (Bytes bytes)) imagesDir) st')"

text \<open>The loop body of \<open>updateComposeForBundle\<close> is empty: the manifest stays as it is.\<close>

definition updateComposeForBundle :: "DockerCompose \<Rightarrow> (string \<times> string) list \<Rightarrow> DockerCompose" where
  "updateComposeForBundle compose imageMap = compose"

definition writeComposeFile :: "host \<Rightarrow> DockerCompose \<Rightarrow> error + string" where
  "writeComposeFile h compose =
     (case yamlMarshal h compose of
        Inl err \<Rightarrow> Inl err
      | Inr bytes \<Rightarrow>
          (case WriteFile h ''docker-compose.yml'' of Some err \<Rightarrow> Inl err | None \<Rightarrow> Inr bytes))"

definition createLoadScript :: "host \<Rightarrow> error option" where
  "createLoadScript h =
     (case WriteFile h ''load-images.sh'' of
        Some err \<Rightarrow> Some err
      | None \<Rightarrow> WriteFile h ''load-images.bat'')"

definition createReadme :: "host \<Rightarrow> error option" where
  "createReadme h = WriteFile h ''README.md''"

definition createTarGz :: "host \<Rightarrow> node \<Rightarrow> string \<Rightarrow> state \<Rightarrow> error option \<times> state" where
  "createTarGz h sourceDir outputFile st =
     (case Create h outputFile of
        Some err \<Rightarrow> (Some err, st)
      | None \<Rightarrow>
          (case Walk (tarGzFn (Separator h)) (Separator h) (Some sourceDir) [] of
             (result, entries) \<Rightarrow> (result, st\<lparr>written := Some entries\<rparr>)))"

text \<open>The temporary directory as it stands when \<open>createTarGz\<close> walks it.\<close>

definition tempDirTree :: "(string \<times> node) list \<Rightarrow> string \<Rightarrow> node" where
  "tempDirTree imagesDir composeBytes =
     DirNode (dirPut ''README.md'' (FileNode Readme)
             (dirPut ''load-images.bat'' (FileNode BatScript)
             (dirPut ''load-images.sh'' (FileNode LoadScript)
             (dirPut ''docker-compose.yml'' (FileNode (Bytes composeBytes))
             (dirPut ''images'' (DirNode imagesDir) [])))))"

fun collectBuilt :: "(string \<times> Service) list \<Rightarrow> (string \<times> bool) list \<Rightarrow> (string \<times> bool) list" where
  "collectBuilt [] builtImages = builtImages"
| "collectBuilt ((serviceName, service) # rest) builtImages =
     collectBuilt rest
       (if Image service \<noteq> [] \<and> HasPrefix (Image service) ''bundled-''
        then mapSet (Image service) True builtImages else builtImages)"

fun removeBuilt :: "engine \<Rightarrow> (string \<times> bool) list \<Rightarrow> state \<Rightarrow> state" where
  "removeBuilt e [] st = st"
| "removeBuilt e ((imageName, flag) # rest) st =
     (let st1 = called (ImageRemove imageName) (print (RemovingBuilt imageName) st)
      in removeBuilt e rest
           (case removeResp e (calls (print (RemovingBuilt imageName) st)) imageName of
              Some err \<Rightarrow> print (WarnRemoveBuilt imageName err) st1
            | None \<Rightarrow> st1))"

definition cleanupImages :: "engine \<Rightarrow> DockerCompose \<Rightarrow> state \<Rightarrow> error option \<times> state" where
  "cleanupImages e compose st = (None, removeBuilt e (collectBuilt (Services compose) []) st)"

fun removePulled :: "engine \<Rightarrow> (string \<times> bool) list \<Rightarrow> state \<Rightarrow> state" where
  "removePulled e [] st = st"
| "removePulled e ((imageName, flag) # rest) st =
     (let st1 = called (ImageRemove imageName) (print (RemovingPulled imageName) st)
      in removePulled e rest
           (case removeResp e (calls (print (RemovingPulled imageName) st)) imageName of
              Some err \<Rightarrow> print (WarnRemovePulled imageName err) st1
            | None \<Rightarrow> st1))"

definition cleanupFreshlyPulledImages :: "engine \<Rightarrow> state \<Rightarrow> error option \<times> state" where
  "cleanupFreshlyPulledImages e st = (None, removePulled e (freshlyPulledImages st) st)"

text \<open>
  What \<open>Bundle\<close> does once the archive is written: both cleanups, a warning for a
  cleanup that returns an error, and then \<open>return nil\<close>.
\<close>

definition cleanupPhase :: "engine \<Rightarrow> DockerCompose \<Rightarrow> state \<Rightarrow> error option \<times> state" where
  "cleanupPhase e compose st =
     (case cleanupImages e compose st of
        (r1, st1) \<Rightarrow>
          (case cleanupFreshlyPulledImages e
                  (case r1 of Some err \<Rightarrow> print (WarnCleanupBuilt err) st1 | None \<Rightarrow> st1) of
             (r2, st2) \<Rightarrow>
               (None, (case r2 of Some err \<Rightarrow> print (WarnCleanupPulled err) st2 | None \<Rightarrow> st2))))"

text \<open>From the temporary directory to the written archive: lines 138 to 181.\<close>

definition assemble :: "host \<Rightarrow> engine \<Rightarrow> DockerCompose \<Rightarrow> (string \<times> string) list \<Rightarrow> string
                          \<Rightarrow> state \<Rightarrow> error option \<times> state" where
  "assemble h e compose imageMap outputFile st =
     (case MkdirTemp h of
        Some err \<Rightarrow> (Some (Wrapped ''failed to create temp directory'' err), st)
      | None \<Rightarrow>
     (case MkdirAll h of
        Some err \<Rightarrow> (Some (Wrapped ''failed to create images directory'' err), st)
      | None \<Rightarrow>
     (case saveImages h e imageMap [] st of
        (Some err, imagesDir, st1) \<Rightarrow> (Some err, st1)
      | (None, imagesDir, st1) \<Rightarrow>
     (case writeComposeFile h (updateComposeForBundle compose imageMap) of
        Inl err \<Rightarrow> (Some (Wrapped ''failed to write updated compose file'' err), st1)
      | Inr composeBytes \<Rightarrow>
     (case createLoadScript h of
        Some err \<Rightarrow> (Some (Wrapped ''failed to create load script'' err), st1)
      | None \<Rightarrow>
     (case createReadme h of
        Some err \<Rightarrow> (Some (Wrapped ''failed to create README'' err), st1)
      | None \<Rightarrow>
     (case createTarGz h (tempDirTree imagesDir composeBytes) outputFile st1 of
        (Some err, st2) \<Rightarrow> (Some (Wrapped ''failed to create bundle'' err), st2)
      | (None, st2) \<Rightarrow> (None, st2))))))))"

definition Bundle :: "host \<Rightarrow> engine \<Rightarrow> string \<Rightarrow> string \<Rightarrow> state \<Rightarrow> error option \<times> state" where
  "Bundle h e composeFile outputFile st =
     (case readCompose h composeFile of
        Inl err \<Rightarrow> (Some (Wrapped ''failed to parse compose file'' err), st)
      | Inr compose \<Rightarrow>
     (case validateXBundle compose of
        Inl err \<Rightarrow> (Some err, st)
      | Inr xb \<Rightarrow>
     (case processServices h e (DirOf h composeFile) (Name xb) (Version xb)
             (Services compose) (Services compose) [] st of
        (Some err, services, imageMap, st1) \<Rightarrow> (Some err, st1)
      | (None, services, imageMap, st1) \<Rightarrow>
     (case assemble h e (compose\<lparr>Services := services\<rparr>) imageMap outputFile st1 of
        (Some err, st2) \<Rightarrow> (Some err, st2)
      | (None, st2) \<Rightarrow> cleanupPhase e (compose\<lparr>Services := services\<rparr>) st2))))"

definition initialState :: state where
  "initialState = \<lparr>calls = [], freshlyPulledImages = [], stdout = [], written = None\<rparr>"


subsection \<open>A concrete host, engine and manifests\<close>

text \<open>
  The compose file of the repository's example (services \<open>web\<close>, \<open>redis\<close>, \<open>postgres\<close>),
  a Unix host whose working directory holds it next to the build context \<open>web\<close>, and an
  engine that holds no image at the start and carries out every request.  \<open>Join\<close> and
  \<open>DirOf\<close> of this host give what \<open>filepath.Join\<close> and \<open>filepath.Dir\<close> give on the
  paths of these runs: \<open>Dir("docker-compose.yml") = "."\<close> and \<open>Join(".", "./web") = "web"\<close>.
\<close>

definition exampleCompose :: DockerCompose where
  "exampleCompose =
     \<lparr>Services =
        [(''web'', \<lparr>Image = [],
                    Build = YMap [(''context'', YString ''./web''),
                                  (''dockerfile'', YString ''Dockerfile'')]\<rparr>),
         (''redis'', \<lparr>Image = ''redis:7-alpine'', Build = YNull\<rparr>),
         (''postgres'', \<lparr>Image = ''postgres:15'', Build = YNull\<rparr>)],
      XBundle = Some \<lparr>Name = ''example'', Version = ''0.0.1''\<rparr>\<rparr>"

definition yamlString :: "yaml_value option \<Rightarrow> string" where
  "yamlString v = (case v of Some (YString s) \<Rightarrow> s | _ \<Rightarrow> [])"

definition webContext :: node where
  "webContext = DirNode [(''Dockerfile'', FileNode (Bytes ''FROM node:20'')),
                         (''server.js'', FileNode (Bytes ''require(http)''))]"

definition exampleHost :: host where
  "exampleHost =
     \<lparr>Separator = CHR ''/'',
      IsAbs = (\<lambda>p. HasPrefix p ''/''),
      Join = (\<lambda>a b. if a = ''.'' then (if HasPrefix b ''./'' then drop 2 b else b)
                      else a @ ''/'' @ b),
      DirOf = (\<lambda>p. ''.''),
      Lstat = (\<lambda>p. if p = ''web'' then Some webContext else None),
      readCompose = (\<lambda>p. if p = ''docker-compose.yml'' then Inr exampleCompose
                          else Inl (Msg ''no such file or directory'')),
      yamlBuildConfig = (\<lambda>m. Inr \<lparr>Context = yamlString (map_of m ''context''),
                                    Dockerfile = yamlString (map_of m ''dockerfile''),
                                    Args = []\<rparr>),
      yamlMarshal = (\<lambda>c. Inr ''services: ...''),
      MkdirTemp = None,
      MkdirAll = None,
      Create = (\<lambda>p. None),
      WriteFile = (\<lambda>p. None),
      NewClient = None\<rparr>"

definition exampleEngine :: engine where
  "exampleEngine =
     \<lparr>inspectResp = (\<lambda>before ref. Some (Msg ''No such image'')),
      pullResp = (\<lambda>before ref. Inr [Frame ''Pulling from library'' [], Frame ''Pull complete'' []]),
      buildResp = (\<lambda>before context options. Inr [Frame ''Step 1/1 : FROM node:20'' []]),
      saveResp = (\<lambda>before ref. Inr (''image '' @ ref, None)),
      removeResp = (\<lambda>before ref. None)\<rparr>"

text \<open>The same engine, except that it refuses every removal.\<close>

definition refusingEngine :: engine where
  "refusingEngine = exampleEngine\<lparr>removeResp := (\<lambda>before ref. Some (Msg ''image is in use''))\<rparr>"

text \<open>A manifest with a single service that names an image.\<close>

definition redisCompose :: DockerCompose where
  "redisCompose =
     \<lparr>Services = [(''redis'', \<lparr>Image = ''redis:7-alpine'', Build = YNull\<rparr>)],
      XBundle = Some \<lparr>Name = ''example'', Version = ''0.0.1''\<rparr>\<rparr>"

definition redisHost :: host where
  "redisHost = exampleHost\<lparr>readCompose := (\<lambda>p. Inr redisCompose)\<rparr>"

text \<open>A manifest whose two image references differ only in a sanitized character.\<close>

definition collidingCompose :: DockerCompose where
  "collidingCompose =
     \<lparr>Services =
        [(''api'', \<lparr>Image = ''acme/api:1'', Build = YNull\<rparr>),
         (''legacy'', \<lparr>Image = ''acme-api:1'', Build = YNull\<rparr>)],
      XBundle = Some \<lparr>Name = ''acme'', Version = ''1.0.0''\<rparr>\<rparr>"

definition collidingHost :: host where
  "collidingHost = exampleHost\<lparr>readCompose := (\<lambda>p. Inr collidingCompose)\<rparr>"

text \<open>
  Build contexts: one with a \<open>.gitignore\<close> file beside the Dockerfile, one with a file
  that cannot be opened.
\<close>

definition gitignoreContext :: node where
  "gitignoreContext =
     DirNode [(''.gitignore'', FileNode (Bytes ''node_modules'')),
              (''Dockerfile'', FileNode (Bytes ''FROM node:20'')),
              (''server.js'', FileNode (Bytes ''require(http)''))]"

definition lockedContext :: node where
  "lockedContext =
     DirNode [(''Dockerfile'', FileNode (Bytes ''FROM node:20'')),
              (''secret.key'', Unreadable),
              (''server.js'', FileNode (Bytes ''require(http)''))]"

text \<open>A directory listing is sorted by name, without repetition, at every level.\<close>

fun sortedListing :: "node \<Rightarrow> bool" and sortedEntries :: "(string \<times> node) list \<Rightarrow> bool" where
  "sortedListing (DirNode es) = sortedEntries es"
| "sortedListing n = True"
| "sortedEntries [] = True"
| "sortedEntries ((name, n) # es) =
     (sortedListing n \<and> (case es of [] \<Rightarrow> True | (name', n') # es' \<Rightarrow> name < name')
      \<and> sortedEntries es)"

text \<open>For stating what an archive holds: a directory entry that is a file, and the body
  that \<open>writeEntry\<close> writes for a node.\<close>

definition isFile :: "string \<times> node \<Rightarrow> bool" where
  "isFile entry = (\<exists>d. snd entry = FileNode d)"

fun bodyOf :: "node \<Rightarrow> entry_body" where
  "bodyOf (FileNode d) = FileBody d"
| "bodyOf Unreadable = NoBody"
| "bodyOf n = DirBody"

section \<open>Properties\<close>

subsection \<open>File names\<close>

lemma byteReplace_pairs:
  "byteReplace replacerPairs c = (if c \<in> disallowed then CHR ''-'' else c)"
  by (simp add: byteReplace_def replacerPairs_def disallowed_def)

lemma dash_not_disallowed: "CHR ''-'' \<notin> disallowed"
  by (simp add: disallowed_def)

lemma sanitizeFilename_map:
  "sanitizeFilename s = map (\<lambda>c. if c \<in> disallowed then CHR ''-'' else c) s"
  by (simp add: sanitizeFilename_def byteReplace_pairs)

lemma sanitizeFilename_idem: "sanitizeFilename (sanitizeFilename s) = sanitizeFilename s"
  by (simp add: sanitizeFilename_map dash_not_disallowed)

lemma sanitizeFilename_clean: "set (sanitizeFilename s) \<inter> disallowed = {}"
  by (auto simp: sanitizeFilename_map dash_not_disallowed)

lemma sanitizeFilename_id: "set s \<inter> disallowed = {} \<Longrightarrow> sanitizeFilename s = s"
  by (induction s) (auto simp: sanitizeFilename_map)

text \<open>
  C5 (amended).  \<open>sanitizeFilename\<close> replaces each of the nine characters
  \<open>/ : \ * ? " < > |\<close> by \<open>-\<close> and leaves every other character as it is; applying it
  twice gives the same as applying it once; and on strings that hold none of the nine
  characters it is the identity, so two such strings with the same result are equal.
\<close>

theorem sanitizeFilename_amended:
  "sanitizeFilename s = map (\<lambda>c. if c \<in> disallowed then CHR ''-'' else c) s
   \<and> sanitizeFilename (sanitizeFilename s) = sanitizeFilename s
   \<and> (set s \<inter> disallowed = {} \<and> set t \<inter> disallowed = {}
        \<and> sanitizeFilename s = sanitizeFilename t \<longrightarrow> s = t)"
proof (intro conjI impI)
  assume "set s \<inter> disallowed = {} \<and> set t \<inter> disallowed = {}
          \<and> sanitizeFilename s = sanitizeFilename t"
  then have s: "set s \<inter> disallowed = {}" and t: "set t \<inter> disallowed = {}"
    and eq: "sanitizeFilename s = sanitizeFilename t"
    by blast+
  have "s = sanitizeFilename s" using s by (rule sanitizeFilename_id [symmetric])
  also have "\<dots> = sanitizeFilename t" by (rule eq)
  also have "\<dots> = t" using t by (rule sanitizeFilename_id)
  finally show "s = t" .
qed (rule sanitizeFilename_map, rule sanitizeFilename_idem)

theorem sanitizeFilename_amended_witness:
  "set ''redis'' \<inter> disallowed = {} \<and> set ''redis'' \<inter> disallowed = {}
   \<and> sanitizeFilename ''redis'' = sanitizeFilename ''redis''
   \<and> sanitizeFilename ''redis'' = ''redis''
   \<and> sanitizeFilename (sanitizeFilename ''redis'') = sanitizeFilename ''redis''"
  using sanitizeFilename_amended [of "''redis''" "''redis''"]
  by (simp add: disallowed_def)

text \<open>
  Over all strings it is not injective: two references that differ only in a replaced
  character get the same file name.
\<close>

theorem sanitizeFilename_not_injective:
  "sanitizeFilename ''a/b:1'' = sanitizeFilename ''a-b:1'' \<and> ''a/b:1'' \<noteq> ''a-b:1''"
  by (simp add: sanitizeFilename_def byteReplace_def replacerPairs_def)


subsection \<open>The version pattern and the validation of the metadata\<close>

lemma nullable_lang: "nullable r \<longleftrightarrow> [] \<in> lang r"
  by (induction r) (auto simp: conc_def intro: star.star_nil)

lemma cons_in_conc:
  "c # w \<in> conc A B \<longleftrightarrow>
     ([] \<in> A \<and> c # w \<in> B) \<or> (\<exists>u v. w = u @ v \<and> c # u \<in> A \<and> v \<in> B)"
  unfolding conc_def by (auto simp: Cons_eq_append_conv) 

lemma cons_in_star_D:
  "x \<in> star A \<Longrightarrow> x = c # w \<Longrightarrow> \<exists>u v. w = u @ v \<and> c # u \<in> A \<and> v \<in> star A"
proof (induction arbitrary: w rule: star.induct)
  case star_nil
  then show ?case by simp
next
  case (star_app u v)
  show ?case
  proof (cases u)
    case Nil
    with star_app show ?thesis by simp
  next
    case (Cons a u')
    with star_app.prems have "a = c" "w = u' @ v" by simp_all
    with Cons star_app.hyps show ?thesis by blast
  qed
qed

lemma cons_in_star:
  "c # w \<in> star A \<longleftrightarrow> (\<exists>u v. w = u @ v \<and> c # u \<in> A \<and> v \<in> star A)"
proof
  assume "c # w \<in> star A"
  then show "\<exists>u v. w = u @ v \<and> c # u \<in> A \<and> v \<in> star A"
    using cons_in_star_D by blast
next
  assume "\<exists>u v. w = u @ v \<and> c # u \<in> A \<and> v \<in> star A"
  then obtain u v where "w = u @ v" "c # u \<in> A" "v \<in> star A" by blast
  then show "c # w \<in> star A"
    using star.star_app [of "c # u" A v] by simp
qed

lemma in_conc: "w \<in> conc A B \<longleftrightarrow> (\<exists>u v. w = u @ v \<and> u \<in> A \<and> v \<in> B)"
  unfolding conc_def by blast

lemma deriv_lang: "w \<in> lang (deriv c r) \<longleftrightarrow> c # w \<in> lang r"
proof (induction r arbitrary: w)
  case (Seq r s)
  show ?case
  proof (cases "nullable r")
    case True
    then have "[] \<in> lang r" by (simp add: nullable_lang)
    then show ?thesis
      using True by (auto simp: cons_in_conc in_conc [of w] Seq.IH)
  next
    case False
    then have "[] \<notin> lang r" by (simp add: nullable_lang)
    then show ?thesis
      using False by (simp add: cons_in_conc in_conc [of w] Seq.IH)
  qed
next
  case (Star r)
  show ?case
    by (simp add: cons_in_star in_conc [of w] Star.IH)
qed auto

lemma matches_lang: "matches r s \<longleftrightarrow> s \<in> lang r"
  by (induction s arbitrary: r) (simp_all add: nullable_lang deriv_lang)

lemma star_class: "star {[c] | c. p c} = {w. \<forall>c \<in> set w. p c}"
proof (intro set_eqI iffI)
  fix w assume "w \<in> star {[c] | c. p c}"
  then show "w \<in> {w. \<forall>c \<in> set w. p c}"
    by (induction rule: star.induct) auto
next
  fix w assume "w \<in> {w. \<forall>c \<in> set w. p c}"
  then have "\<forall>c \<in> set w. p c" by simp
  then show "w \<in> star {[c] | c. p c}"
  proof (induction w)
    case Nil
    show ?case by (rule star.star_nil)
  next
    case (Cons a w)
    then have "[a] \<in> {[c] | c. p c}" "w \<in> star {[c] | c. p c}" by auto
    then have "[a] @ w \<in> star {[c] | c. p c}" by (rule star.star_app)
    then show ?case by simp
  qed
qed

lemma lang_number: "lang numberRegex = {n. numericId n}"
proof (intro set_eqI iffI)
  fix n assume "n \<in> lang numberRegex"
  then show "n \<in> {n. numericId n}"
    by (auto simp: numberRegex_def Lit_def in_conc star_class numericId_def list_all_iff)
next
  fix n assume "n \<in> {n. numericId n}"
  then have n: "numericId n" by simp
  then obtain d ds where nd: "n = d # ds" by (cases n) (auto simp: numericId_def)
  with n have "(d = CHR ''0'' \<and> ds = []) \<or> (isNonZeroDigit d \<and> list_all isDigit ds)"
    by (simp add: numericId_def)
  then show "n \<in> lang numberRegex"
  proof
    assume "d = CHR ''0'' \<and> ds = []"
    with nd show ?thesis by (simp add: numberRegex_def Lit_def)
  next
    assume h: "isNonZeroDigit d \<and> list_all isDigit ds"
    have "n = [d] @ ds" using nd by simp
    moreover have "[d] \<in> lang (Class isNonZeroDigit)" using h by simp
    moreover have "ds \<in> lang (Star (Class isDigit))" using h by (simp add: star_class list_all_iff)
    ultimately have "n \<in> lang (Seq (Class isNonZeroDigit) (Star (Class isDigit)))"
      unfolding lang.simps(5) in_conc by blast
    then show ?thesis by (simp add: numberRegex_def)
  qed
qed

lemma lang_plus1_class: "lang (Plus1 (Class p)) = {w. w \<noteq> [] \<and> list_all p w}"
proof (intro set_eqI iffI)
  fix w assume "w \<in> lang (Plus1 (Class p))"
  then show "w \<in> {w. w \<noteq> [] \<and> list_all p w}"
    by (auto simp: Plus1_def in_conc star_class list_all_iff)
next
  fix w assume "w \<in> {w. w \<noteq> [] \<and> list_all p w}"
  then obtain a as where w: "w = [a] @ as" "p a" "list_all p as" by (cases w) auto
  then have "[a] \<in> lang (Class p)" "as \<in> lang (Star (Class p))"
    by (simp_all add: star_class list_all_iff)
  with w(1) show "w \<in> lang (Plus1 (Class p))"
    unfolding Plus1_def lang.simps(5) in_conc by blast
qed

lemma lang_opt: "lang (Opt r) = insert [] (lang r)"
  by (auto simp: Opt_def)

lemma lang_lit: "lang (Lit c) = {[c]}"
  by (auto simp: Lit_def)

lemma lang_semver: "s \<in> lang semverRegex \<longleftrightarrow> semverGrammar s"
proof -
  have pre: "lang (Opt (Seq (Lit c) (Plus1 (Class isIdentChar)))) =
      {p. p = [] \<or> (\<exists>w. p = c # w \<and> identPart w)}" for c
    unfolding lang_opt lang.simps(5) lang_lit lang_plus1_class
    by (auto simp: in_conc identPart_def)
  have v: "lang (Opt (Lit CHR ''v'')) = {v. v = [] \<or> v = ''v''}"
    unfolding lang_opt lang_lit by auto
  show ?thesis
    unfolding semverRegex_def semverGrammar_def lang.simps(5) pre v lang_number lang_lit in_conc
    by (simp add: ex_simps [symmetric] del: ex_simps)
qed

lemma isValidSemver_grammar: "isValidSemver s \<longleftrightarrow> semverGrammar s"
  by (simp add: isValidSemver_def matches_lang lang_semver)

lemmas semver_eval = isValidSemver_def semverRegex_def numberRegex_def Lit_def Opt_def Plus1_def
  isDigit_def isNonZeroDigit_def isWord_def isIdentChar_def less_eq_char_def

lemma empty_not_semver: "\<not> isValidSemver []"
  by (simp add: semver_eval)

text \<open>
  C2.  Validation of the bundle metadata succeeds exactly for a manifest whose \<open>x-bundle\<close>
  block is present, with a non-empty name and a version of the semantic-version grammar;
  in every other case (block absent, name empty, version empty or not of the grammar) it
  fails with one of the four validation errors.  The versions \<open>1.2\<close>, \<open>abc\<close> and \<open>1.2.3.4\<close>
  are rejected.
\<close>

theorem validateXBundle_iff:
  "(validateXBundle compose = Inr xb \<longleftrightarrow>
      XBundle compose = Some xb \<and> Name xb \<noteq> [] \<and> semverGrammar (Version xb))
   \<and> ((\<exists>err. validateXBundle compose = Inl err
              \<and> (err = MissingXBundle \<or> err = MissingName \<or> err = MissingVersion
                   \<or> err = InvalidVersion)) \<longleftrightarrow>
        (XBundle compose = None
         \<or> (\<exists>b. XBundle compose = Some b
                \<and> (Name b = [] \<or> Version b = [] \<or> \<not> semverGrammar (Version b)))))
   \<and> \<not> isValidSemver ''1.2'' \<and> \<not> isValidSemver ''abc'' \<and> \<not> isValidSemver ''1.2.3.4''"
proof (intro conjI)
  show "validateXBundle compose = Inr xb \<longleftrightarrow>
      XBundle compose = Some xb \<and> Name xb \<noteq> [] \<and> semverGrammar (Version xb)"
    using empty_not_semver
    by (auto simp: validateXBundle_def isValidSemver_grammar [symmetric] split: option.splits)
  show "(\<exists>err. validateXBundle compose = Inl err
              \<and> (err = MissingXBundle \<or> err = MissingName \<or> err = MissingVersion
                   \<or> err = InvalidVersion)) \<longleftrightarrow>
        (XBundle compose = None
         \<or> (\<exists>b. XBundle compose = Some b
                \<and> (Name b = [] \<or> Version b = [] \<or> \<not> semverGrammar (Version b))))"
    by (auto simp: validateXBundle_def isValidSemver_grammar [symmetric] split: option.splits)
  show "\<not> isValidSemver ''1.2''" by (simp add: semver_eval)
  show "\<not> isValidSemver ''abc''" by (simp add: semver_eval)
  show "\<not> isValidSemver ''1.2.3.4''" by (simp add: semver_eval)
qed

theorem validateXBundle_iff_witness:
  "validateXBundle exampleCompose = Inr \<lparr>Name = ''example'', Version = ''0.0.1''\<rparr>
   \<and> semverGrammar ''0.0.1''
   \<and> validateXBundle (exampleCompose\<lparr>XBundle := None\<rparr>) = Inl MissingXBundle"
proof -
  have ok: "validateXBundle exampleCompose = Inr \<lparr>Name = ''example'', Version = ''0.0.1''\<rparr>"
    by (simp add: validateXBundle_def exampleCompose_def semver_eval)
  have bad: "validateXBundle (exampleCompose\<lparr>XBundle := None\<rparr>) = Inl MissingXBundle"
    by (simp add: validateXBundle_def)
  from ok bad validateXBundle_iff [of exampleCompose "\<lparr>Name = ''example'', Version = ''0.0.1''\<rparr>"]
  show ?thesis by simp
qed

subsection \<open>The resolver\<close>

lemma print_fields [simp]:
  "calls (print ev st) = calls st"
  "freshlyPulledImages (print ev st) = freshlyPulledImages st"
  "written (print ev st) = written st"
  "stdout (print ev st) = stdout st @ [ev]"
  by (simp_all add: print_def)

lemma called_fields [simp]:
  "calls (called c st) = calls st @ [c]"
  "freshlyPulledImages (called c st) = freshlyPulledImages st"
  "written (called c st) = written st"
  "stdout (called c st) = stdout st"
  by (simp_all add: called_def)

lemma readBuildOutput_fields:
  "readBuildOutput frames st = (r, st') \<Longrightarrow>
     calls st' = calls st \<and> freshlyPulledImages st' = freshlyPulledImages st
     \<and> written st' = written st"
  by (induction frames st rule: readBuildOutput.induct) (auto split: if_splits)

lemma createBuildContextTar_snd: "snd (createBuildContextTar sep root) = None"
  by (simp add: createBuildContextTar_def split: prod.splits)

lemma buildImage_fields:
  assumes "buildImage h e config baseDir imageName st = (None, st')"
  shows "calls st' = calls st @
           [ImageBuild
              (fst (createBuildContextTar (Separator h)
                     (Lstat h (if IsAbs h (Context config) then Context config
                               else Join h baseDir (Context config)))))
              \<lparr>OptDockerfile = (if Dockerfile config = [] then ''Dockerfile''
                                 else Dockerfile config),
               Tags = [imageName], Remove = True, BuildArgs = Args config\<rparr>]"
    and "freshlyPulledImages st' = freshlyPulledImages st"
    and "written st' = written st"
  using assms createBuildContextTar_snd [of "Separator h"]
  unfolding buildImage_def Let_def
  by (auto split: prod.splits option.splits sum.splits dest!: readBuildOutput_fields)


lemma pullImageIfNotExists_present:
  assumes "inspectResp e (calls st) imageName = None"
  shows "pullImageIfNotExists e imageName st =
           (None, print (AlreadyExists imageName) (called (ImageInspect imageName) st))"
  using assms by (simp add: pullImageIfNotExists_def)

lemma pullImageIfNotExists_absent:
  assumes "inspectResp e (calls st) imageName = Some notFound"
    and "pullResp e (calls st @ [ImageInspect imageName]) imageName = Inr frames"
  shows "pullImageIfNotExists e imageName st =
           (readPullOutput frames,
            (called (ImagePull imageName)
               (print (Pulling imageName) (called (ImageInspect imageName) st)))
            \<lparr>freshlyPulledImages := mapSet imageName True (freshlyPulledImages st)\<rparr>)"
  using assms by (simp add: pullImageIfNotExists_def Let_def)

text \<open>
  C1.  With \<open>ref\<close> the reference \<open>bundles/<bundleName>/<serviceName>:<bundleVersion>\<close>:
  a service whose build spec is set (whatever its image field holds) is built under
  \<open>ref\<close>, from the context resolved against the manifest's directory unless absolute
  and with \<open>Dockerfile\<close> as the default Dockerfile name, and once the build has gone
  through the service has \<open>ref\<close> as its image and no build spec, and \<open>ref\<close> is returned.
  A service with no build spec and an image is inspected; when the image is present
  nothing is pulled, when it is absent it is pulled and recorded in the pulled-image set;
  the reference is returned unchanged and the service is left as it is.  A service with
  neither returns no image, makes no engine call, and adds nothing to the export map.
\<close>

theorem processServiceWithBundle_resolves:
  "(Build service \<noteq> YNull
      \<and> parseBuildConfig h (Build service) = Inr config
      \<and> buildImage h e config baseDir
            (''bundles/'' @ bundleName @ ''/'' @ serviceName @ '':'' @ bundleVersion) st
          = (None, st1)
    \<longrightarrow> processServiceWithBundle h e serviceName service baseDir bundleName bundleVersion st
          = (Inr (''bundles/'' @ bundleName @ ''/'' @ serviceName @ '':'' @ bundleVersion),
             service\<lparr>Image := ''bundles/'' @ bundleName @ ''/'' @ serviceName @ '':'' @ bundleVersion,
                      Build := YNull\<rparr>,
             st1)
        \<and> calls st1 = calls st @
             [ImageBuild
                (fst (createBuildContextTar (Separator h)
                       (Lstat h (if IsAbs h (Context config) then Context config
                                 else Join h baseDir (Context config)))))
                \<lparr>OptDockerfile = (if Dockerfile config = [] then ''Dockerfile''
                                   else Dockerfile config),
                 Tags = [''bundles/'' @ bundleName @ ''/'' @ serviceName @ '':'' @ bundleVersion],
                 Remove = True, BuildArgs = Args config\<rparr>]
        \<and> freshlyPulledImages st1 = freshlyPulledImages st)
   \<and> (Build service = YNull \<and> Image service \<noteq> []
        \<and> inspectResp e (calls st) (Image service) = None
      \<longrightarrow> (\<exists>st2. processServiceWithBundle h e serviceName service baseDir bundleName
                     bundleVersion st = (Inr (Image service), service, st2)
                 \<and> calls st2 = calls st @ [ImageInspect (Image service)]
                 \<and> freshlyPulledImages st2 = freshlyPulledImages st))
   \<and> (Build service = YNull \<and> Image service \<noteq> []
        \<and> inspectResp e (calls st) (Image service) = Some notFound
        \<and> pullResp e (calls st @ [ImageInspect (Image service)]) (Image service) = Inr frames
        \<and> readPullOutput frames = None
      \<longrightarrow> (\<exists>st3. processServiceWithBundle h e serviceName service baseDir bundleName
                     bundleVersion st = (Inr (Image service), service, st3)
                 \<and> calls st3 = calls st @ [ImageInspect (Image service), ImagePull (Image service)]
                 \<and> freshlyPulledImages st3 = mapSet (Image service) True (freshlyPulledImages st)))
   \<and> (Build service = YNull \<and> Image service = []
      \<longrightarrow> processServiceWithBundle h e serviceName service baseDir bundleName bundleVersion st
            = (Inr [], service, st)
          \<and> processServices h e baseDir bundleName bundleVersion ((serviceName, service) # rest)
              services imageMap st
            = processServices h e baseDir bundleName bundleVersion rest services imageMap st)"
proof (intro conjI impI)
  assume a: "Build service \<noteq> YNull
      \<and> parseBuildConfig h (Build service) = Inr config
      \<and> buildImage h e config baseDir
            (''bundles/'' @ bundleName @ ''/'' @ serviceName @ '':'' @ bundleVersion) st
          = (None, st1)"
  then show "processServiceWithBundle h e serviceName service baseDir bundleName bundleVersion st
          = (Inr (''bundles/'' @ bundleName @ ''/'' @ serviceName @ '':'' @ bundleVersion),
             service\<lparr>Image := ''bundles/'' @ bundleName @ ''/'' @ serviceName @ '':'' @ bundleVersion,
                      Build := YNull\<rparr>,
             st1)"
    by (simp add: processServiceWithBundle_def Let_def)
  from a show "calls st1 = calls st @
             [ImageBuild
                (fst (createBuildContextTar (Separator h)
                       (Lstat h (if IsAbs h (Context config) then Context config
                                 else Join h baseDir (Context config)))))
                \<lparr>OptDockerfile = (if Dockerfile config = [] then ''Dockerfile''
                                   else Dockerfile config),
                 Tags = [''bundles/'' @ bundleName @ ''/'' @ serviceName @ '':'' @ bundleVersion],
                 Remove = True, BuildArgs = Args config\<rparr>]"
    using buildImage_fields(1) by blast
  from a show "freshlyPulledImages st1 = freshlyPulledImages st"
    using buildImage_fields(2) by blast
next
  assume "Build service = YNull \<and> Image service \<noteq> []
        \<and> inspectResp e (calls st) (Image service) = None"
  then show "\<exists>st2. processServiceWithBundle h e serviceName service baseDir bundleName
                     bundleVersion st = (Inr (Image service), service, st2)
                 \<and> calls st2 = calls st @ [ImageInspect (Image service)]
                 \<and> freshlyPulledImages st2 = freshlyPulledImages st"
    by (simp add: processServiceWithBundle_def pullImageIfNotExists_present)
next
  assume "Build service = YNull \<and> Image service \<noteq> []
        \<and> inspectResp e (calls st) (Image service) = Some notFound
        \<and> pullResp e (calls st @ [ImageInspect (Image service)]) (Image service) = Inr frames
        \<and> readPullOutput frames = None"
  then show "\<exists>st3. processServiceWithBundle h e serviceName service baseDir bundleName
                     bundleVersion st = (Inr (Image service), service, st3)
                 \<and> calls st3 = calls st @ [ImageInspect (Image service), ImagePull (Image service)]
                 \<and> freshlyPulledImages st3 = mapSet (Image service) True (freshlyPulledImages st)"
    by (simp add: processServiceWithBundle_def pullImageIfNotExists_absent)
next
  assume b: "Build service = YNull \<and> Image service = []"
  then show p: "processServiceWithBundle h e serviceName service baseDir bundleName bundleVersion st
            = (Inr [], service, st)"
    by (simp add: processServiceWithBundle_def)
  show "processServices h e baseDir bundleName bundleVersion ((serviceName, service) # rest)
              services imageMap st
            = processServices h e baseDir bundleName bundleVersion rest services imageMap st"
    by (simp add: p)
qed


lemmas run_defs =
  exampleHost_def exampleEngine_def webContext_def yamlString_def initialState_def
  parseBuildConfig_def buildImage_def createBuildContextTar_def Walk_def buildContextFn_def
  writeEntry_def HasPrefix_def joinRel_def ToSlash_def print_def called_def Let_def

theorem processServiceWithBundle_resolves_witness:
  "fst (processServiceWithBundle exampleHost exampleEngine ''web''
          \<lparr>Image = ''nginx'', Build = YString ''./web''\<rparr> ''.'' ''example'' ''0.0.1'' initialState)
     = Inr ''bundles/example/web:0.0.1''
   \<and> fst (snd (processServiceWithBundle exampleHost exampleEngine ''web''
          \<lparr>Image = ''nginx'', Build = YString ''./web''\<rparr> ''.'' ''example'' ''0.0.1'' initialState))
     = \<lparr>Image = ''bundles/example/web:0.0.1'', Build = YNull\<rparr>
   \<and> fst (processServiceWithBundle exampleHost (exampleEngine\<lparr>inspectResp := \<lambda>before ref. None\<rparr>)
          ''redis'' \<lparr>Image = ''redis:7-alpine'', Build = YNull\<rparr> ''.'' ''example'' ''0.0.1''
          initialState)
     = Inr ''redis:7-alpine''
   \<and> fst (processServiceWithBundle exampleHost exampleEngine
          ''redis'' \<lparr>Image = ''redis:7-alpine'', Build = YNull\<rparr> ''.'' ''example'' ''0.0.1''
          initialState)
     = Inr ''redis:7-alpine''
   \<and> processServiceWithBundle exampleHost exampleEngine
          ''data'' \<lparr>Image = [], Build = YNull\<rparr> ''.'' ''example'' ''0.0.1'' initialState
     = (Inr [], \<lparr>Image = [], Build = YNull\<rparr>, initialState)"
proof -
  let ?web = "\<lparr>Image = ''nginx'', Build = YString ''./web''\<rparr>"
  let ?redis = "\<lparr>Image = ''redis:7-alpine'', Build = YNull\<rparr>"
  let ?data = "\<lparr>Image = [], Build = YNull\<rparr>"
  let ?config = "\<lparr>Context = ''./web'', Dockerfile = [], Args = []\<rparr>"
  let ?present = "exampleEngine\<lparr>inspectResp := \<lambda>before ref. None\<rparr>"
  obtain st1 where b: "buildImage exampleHost exampleEngine ?config ''.''
      (''bundles/'' @ ''example'' @ ''/'' @ ''web'' @ '':'' @ ''0.0.1'') initialState = (None, st1)"
    by (simp add: run_defs)
  have p: "Build ?web \<noteq> YNull \<and> parseBuildConfig exampleHost (Build ?web) = Inr ?config"
    by (simp add: parseBuildConfig_def)
  have w1: "processServiceWithBundle exampleHost exampleEngine ''web'' ?web ''.'' ''example''
              ''0.0.1'' initialState
            = (Inr ''bundles/example/web:0.0.1'',
               \<lparr>Image = ''bundles/example/web:0.0.1'', Build = YNull\<rparr>, st1)"
    using processServiceWithBundle_resolves
      [of ?web exampleHost ?config exampleEngine "''.''" "''example''" "''web''" "''0.0.1''"
          initialState st1] p b
    by simp
  have i2: "Build ?redis = YNull \<and> Image ?redis \<noteq> []
            \<and> inspectResp ?present (calls initialState) (Image ?redis) = None"
    by simp
  have w2: "fst (processServiceWithBundle exampleHost ?present ''redis'' ?redis ''.'' ''example''
              ''0.0.1'' initialState) = Inr ''redis:7-alpine''"
    using processServiceWithBundle_resolves
      [of ?redis exampleHost _ ?present "''.''" "''example''" "''redis''" "''0.0.1''"
          initialState] i2
    by auto
  have i3: "Build ?redis = YNull \<and> Image ?redis \<noteq> []
            \<and> inspectResp exampleEngine (calls initialState) (Image ?redis)
                = Some (Msg ''No such image'')
            \<and> pullResp exampleEngine (calls initialState @ [ImageInspect (Image ?redis)])
                 (Image ?redis)
                = Inr [Frame ''Pulling from library'' [], Frame ''Pull complete'' []]
            \<and> readPullOutput [Frame ''Pulling from library'' [], Frame ''Pull complete'' []] = None"
    by (simp add: exampleEngine_def)
  have w3: "fst (processServiceWithBundle exampleHost exampleEngine ''redis'' ?redis ''.''
              ''example'' ''0.0.1'' initialState) = Inr ''redis:7-alpine''"
    using processServiceWithBundle_resolves
      [of ?redis exampleHost _ exampleEngine "''.''" "''example''" "''redis''" "''0.0.1''"
          initialState _ "Msg ''No such image''"
          "[Frame ''Pulling from library'' [], Frame ''Pull complete'' []]"] i3
    by auto
  have w4: "processServiceWithBundle exampleHost exampleEngine ''data'' ?data ''.''
              ''example'' ''0.0.1'' initialState = (Inr [], ?data, initialState)"
    using processServiceWithBundle_resolves
      [of ?data exampleHost _ exampleEngine "''.''" "''example''" "''data''" "''0.0.1''"
          initialState]
    by simp
  from w1 w2 w3 w4 show ?thesis by simp
qed

subsection \<open>Runs of Bundle: validation first, cleanup last\<close>

lemmas bundle_defs =
  Bundle_def validateXBundle_def assemble_def cleanupPhase_def cleanupImages_def
  cleanupFreshlyPulledImages_def processServiceWithBundle_def pullImageIfNotExists_def
  saveImage_def writeComposeFile_def updateComposeForBundle_def createLoadScript_def
  createReadme_def createTarGz_def tempDirTree_def tarGzFn_def sanitizeFilename_def
  byteReplace_def replacerPairs_def exampleCompose_def semver_eval less_char_def

lemma example_run:
  "Bundle exampleHost exampleEngine ''docker-compose.yml'' ''bundle.tar.gz'' initialState =
   (None,
  \<lparr>calls =
     [ImageBuild
       [(''.'', DirBody),
        (''Dockerfile'', FileBody (Bytes ''FROM node:20'')),
        (''server.js'', FileBody (Bytes ''require(http)''))]
       \<lparr>OptDockerfile = ''Dockerfile'',
          Tags = [''bundles/example/web:0.0.1''], Remove = True,
          BuildArgs = []\<rparr>,
      ImageInspect ''redis:7-alpine'', ImagePull ''redis:7-alpine'',
      ImageInspect ''postgres:15'', ImagePull ''postgres:15'',
      ImageSave ''bundles/example/web:0.0.1'', ImageSave ''redis:7-alpine'',
      ImageSave ''postgres:15'', ImageRemove ''redis:7-alpine'',
      ImageRemove ''postgres:15''],
     freshlyPulledImages =
       [(''redis:7-alpine'', True), (''postgres:15'', True)],
     stdout =
       [Building ''bundles/example/web:0.0.1'' ''web'',
        BuildOutput ''Step 1/1 : FROM node:20'', Pulling ''redis:7-alpine'',
        Pulling ''postgres:15'',
        Saving ''bundles/example/web:0.0.1''
         ''bundles-example-web-0.0.1.tar'',
        Saving ''redis:7-alpine'' ''redis-7-alpine.tar'',
        Saving ''postgres:15'' ''postgres-15.tar'',
        RemovingPulled ''redis:7-alpine'', RemovingPulled ''postgres:15''],
     written =
       Some
        [(''README.md'', FileBody Readme),
         (''docker-compose.yml'', FileBody (Bytes ''services: ...'')),
         (''images'', DirBody),
         (''images/bundles-example-web-0.0.1.tar'',
          FileBody (Bytes ''image bundles/example/web:0.0.1'')),
         (''images/postgres-15.tar'',
          FileBody (Bytes ''image postgres:15'')),
         (''images/redis-7-alpine.tar'',
          FileBody (Bytes ''image redis:7-alpine'')),
         (''load-images.bat'', FileBody BatScript),
         (''load-images.sh'', FileBody LoadScript)]\<rparr>)"
  by (simp add: bundle_defs run_defs)


text \<open>
  C9.  When the manifest has no \<open>x-bundle\<close> block, an empty name, an empty version or a
  version outside the semantic-version grammar, \<open>Bundle\<close> fails and leaves the state as it
  was: no engine call has been made.  In any run in which an engine call is made, the
  manifest was read and its metadata validated first.
\<close>

theorem Bundle_validates_first:
  "(readCompose h composeFile = Inr compose
      \<and> (XBundle compose = None
           \<or> (\<exists>b. XBundle compose = Some b
                  \<and> (Name b = [] \<or> Version b = [] \<or> \<not> semverGrammar (Version b))))
    \<longrightarrow> (\<exists>err. Bundle h e composeFile outputFile st = (Some err, st)))
   \<and> (Bundle h e composeFile outputFile st = (r, st') \<and> calls st' \<noteq> calls st
    \<longrightarrow> (\<exists>c xb. readCompose h composeFile = Inr c \<and> validateXBundle c = Inr xb))"
proof (intro conjI impI)
  assume a: "readCompose h composeFile = Inr compose
      \<and> (XBundle compose = None
           \<or> (\<exists>b. XBundle compose = Some b
                  \<and> (Name b = [] \<or> Version b = [] \<or> \<not> semverGrammar (Version b))))"
  then have "\<exists>err. validateXBundle compose = Inl err"
    by (auto simp: validateXBundle_def isValidSemver_grammar split: option.splits)
  with a show "\<exists>err. Bundle h e composeFile outputFile st = (Some err, st)"
    by (auto simp: Bundle_def)
next
  assume b: "Bundle h e composeFile outputFile st = (r, st') \<and> calls st' \<noteq> calls st"
  show "\<exists>c xb. readCompose h composeFile = Inr c \<and> validateXBundle c = Inr xb"
  proof (cases "readCompose h composeFile")
    case (Inl err)
    with b show ?thesis by (auto simp: Bundle_def)
  next
    case (Inr c)
    show ?thesis
    proof (cases "validateXBundle c")
      case (Inl err)
      with Inr b show ?thesis by (auto simp: Bundle_def)
    next
      case v: (Inr xb)
      with Inr show ?thesis by blast
    qed
  qed
qed

theorem Bundle_validates_first_witness:
  "(\<exists>err. Bundle (exampleHost\<lparr>readCompose := \<lambda>p. Inr (exampleCompose\<lparr>XBundle :=
                     Some \<lparr>Name = ''example'', Version = ''1.2''\<rparr>\<rparr>)\<rparr>)
            exampleEngine ''docker-compose.yml'' ''bundle.tar.gz'' initialState
          = (Some err, initialState))
   \<and> (\<exists>xb. validateXBundle exampleCompose = Inr xb)"
proof -
  let ?bad = "exampleCompose\<lparr>XBundle := Some \<lparr>Name = ''example'', Version = ''1.2''\<rparr>\<rparr>"
  let ?h = "exampleHost\<lparr>readCompose := \<lambda>p. Inr ?bad\<rparr>"
  have "\<not> isValidSemver ''1.2''" by (simp add: semver_eval)
  then have ns: "\<not> semverGrammar ''1.2''" by (simp add: isValidSemver_grammar)
  have h1: "readCompose ?h ''docker-compose.yml'' = Inr ?bad
      \<and> (XBundle ?bad = None
           \<or> (\<exists>b. XBundle ?bad = Some b
                  \<and> (Name b = [] \<or> Version b = [] \<or> \<not> semverGrammar (Version b))))"
    using ns by simp
  obtain r st' where run: "Bundle exampleHost exampleEngine ''docker-compose.yml''
        ''bundle.tar.gz'' initialState = (r, st')" and c: "calls st' \<noteq> calls initialState"
    using example_run by (simp add: initialState_def)
  have rc: "readCompose exampleHost ''docker-compose.yml'' = Inr exampleCompose"
    by (simp add: exampleHost_def)
  have w1: "\<exists>err. Bundle ?h exampleEngine ''docker-compose.yml'' ''bundle.tar.gz'' initialState
          = (Some err, initialState)"
    using Bundle_validates_first
      [of ?h "''docker-compose.yml''" ?bad exampleEngine "''bundle.tar.gz''" initialState]
      h1 by blast
  have w2: "\<exists>xb. validateXBundle exampleCompose = Inr xb"
    using Bundle_validates_first
      [of exampleHost "''docker-compose.yml''" _ exampleEngine "''bundle.tar.gz''" initialState
          r st'] run c rc by auto
  from w1 w2 show ?thesis by blast
qed






lemma refusing_run:
  "Bundle exampleHost refusingEngine ''docker-compose.yml'' ''bundle.tar.gz'' initialState =
   (None,
  \<lparr>calls =
     [ImageBuild
       [(''.'', DirBody),
        (''Dockerfile'', FileBody (Bytes ''FROM node:20'')),
        (''server.js'', FileBody (Bytes ''require(http)''))]
       \<lparr>OptDockerfile = ''Dockerfile'',
          Tags = [''bundles/example/web:0.0.1''], Remove = True,
          BuildArgs = []\<rparr>,
      ImageInspect ''redis:7-alpine'', ImagePull ''redis:7-alpine'',
      ImageInspect ''postgres:15'', ImagePull ''postgres:15'',
      ImageSave ''bundles/example/web:0.0.1'', ImageSave ''redis:7-alpine'',
      ImageSave ''postgres:15'', ImageRemove ''redis:7-alpine'',
      ImageRemove ''postgres:15''],
     freshlyPulledImages =
       [(''redis:7-alpine'', True), (''postgres:15'', True)],
     stdout =
       [Building ''bundles/example/web:0.0.1'' ''web'',
        BuildOutput ''Step 1/1 : FROM node:20'', Pulling ''redis:7-alpine'',
        Pulling ''postgres:15'',
        Saving ''bundles/example/web:0.0.1''
         ''bundles-example-web-0.0.1.tar'',
        Saving ''redis:7-alpine'' ''redis-7-alpine.tar'',
        Saving ''postgres:15'' ''postgres-15.tar'',
        RemovingPulled ''redis:7-alpine'',
        WarnRemovePulled ''redis:7-alpine'' (Msg ''image is in use''),
        RemovingPulled ''postgres:15'',
        WarnRemovePulled ''postgres:15'' (Msg ''image is in use'')],
     written =
       Some
        [(''README.md'', FileBody Readme),
         (''docker-compose.yml'', FileBody (Bytes ''services: ...'')),
         (''images'', DirBody),
         (''images/bundles-example-web-0.0.1.tar'',
          FileBody (Bytes ''image bundles/example/web:0.0.1'')),
         (''images/postgres-15.tar'',
          FileBody (Bytes ''image postgres:15'')),
         (''images/redis-7-alpine.tar'',
          FileBody (Bytes ''image redis:7-alpine'')),
         (''load-images.bat'', FileBody BatScript),
         (''load-images.sh'', FileBody LoadScript)]\<rparr>)"
  by (simp add: bundle_defs run_defs refusingEngine_def)



subsection \<open>The build context and the cleanup of built images\<close>

lemma buildImage_always_calls:
  "\<exists>options. calls (snd (buildImage h e config baseDir imageName st)) =
      calls st @ [ImageBuild
         (snd (Walk (buildContextFn (Separator h)) (Separator h)
                 (Lstat h (if IsAbs h (Context config) then Context config
                           else Join h baseDir (Context config))) []))
         options]"
proof -
  let ?ctx = "Lstat h (if IsAbs h (Context config) then Context config
                       else Join h baseDir (Context config))"
  obtain walkResult stream where
    W: "Walk (buildContextFn (Separator h)) (Separator h) ?ctx [] = (walkResult, stream)"
    by (cases "Walk (buildContextFn (Separator h)) (Separator h) ?ctx []")
  have fields: "calls (snd (readBuildOutput frames st')) = calls st'" for frames st'
    using readBuildOutput_fields [of frames st'] by (cases "readBuildOutput frames st'") simp
  show ?thesis
    unfolding buildImage_def Let_def createBuildContextTar_def
    by (simp add: W fields split: sum.splits)
qed

text \<open>
  C10.  \<open>createBuildContextTar\<close> returns a nil error for every context, and its stream is
  what the walk had written when it ended, whatever the walk returned.  For a context
  directory that does not exist the walk fails and the stream is empty; for a context
  with a file that cannot be opened the walk fails and the stream stops after that
  file's header.  \<open>buildImage\<close> sends the stream to the engine in either case.
\<close>

theorem createBuildContextTar_discards_walk_error:
  "snd (createBuildContextTar sep root) = None
   \<and> fst (createBuildContextTar sep root) = snd (Walk (buildContextFn sep) sep root [])
   \<and> fst (Walk (buildContextFn sep) sep None []) \<noteq> None
   \<and> createBuildContextTar sep None = ([], None)
   \<and> Walk (buildContextFn CHR ''/'') CHR ''/'' (Some lockedContext) [] =
        (Some (Msg ''open: permission denied''),
         [(''.'', DirBody), (''Dockerfile'', FileBody (Bytes ''FROM node:20'')),
          (''secret.key'', NoBody)])
   \<and> createBuildContextTar CHR ''/'' (Some lockedContext) =
        ([(''.'', DirBody), (''Dockerfile'', FileBody (Bytes ''FROM node:20'')),
          (''secret.key'', NoBody)], None)
   \<and> (\<exists>options. calls (snd (buildImage h e config baseDir imageName st)) =
          calls st @ [ImageBuild
             (snd (Walk (buildContextFn (Separator h)) (Separator h)
                     (Lstat h (if IsAbs h (Context config) then Context config
                               else Join h baseDir (Context config))) []))
             options])"
proof (intro conjI)
  show "snd (createBuildContextTar sep root) = None"
    by (rule createBuildContextTar_snd)
  show "fst (createBuildContextTar sep root) = snd (Walk (buildContextFn sep) sep root [])"
    by (simp add: createBuildContextTar_def split: prod.splits)
  show "fst (Walk (buildContextFn sep) sep None []) \<noteq> None"
    by (simp add: Walk_def buildContextFn_def)
  show "createBuildContextTar sep None = ([], None)"
    by (simp add: createBuildContextTar_def Walk_def buildContextFn_def)
  show "Walk (buildContextFn CHR ''/'') CHR ''/'' (Some lockedContext) [] =
        (Some (Msg ''open: permission denied''),
         [(''.'', DirBody), (''Dockerfile'', FileBody (Bytes ''FROM node:20'')),
          (''secret.key'', NoBody)])"
    by (simp add: lockedContext_def run_defs)
  show "createBuildContextTar CHR ''/'' (Some lockedContext) =
        ([(''.'', DirBody), (''Dockerfile'', FileBody (Bytes ''FROM node:20'')),
          (''secret.key'', NoBody)], None)"
    by (simp add: lockedContext_def run_defs)
  show "\<exists>options. calls (snd (buildImage h e config baseDir imageName st)) =
          calls st @ [ImageBuild
             (snd (Walk (buildContextFn (Separator h)) (Separator h)
                     (Lstat h (if IsAbs h (Context config) then Context config
                               else Join h baseDir (Context config))) []))
             options]"
    by (rule buildImage_always_calls)
qed

text \<open>
  C6 fails on the code.  In a context directory that holds a file \<open>.gitignore\<close> beside
  \<open>Dockerfile\<close> and \<open>server.js\<close>, the walk function returns \<open>SkipDir\<close> for the file
  \<open>.gitignore\<close>, which ends the walk of the directory that contains it: the stream holds
  the entry of the root only, and \<open>Dockerfile\<close> and \<open>server.js\<close>, whose names do not
  begin with \<open>.git\<close>, are left out.
\<close>

theorem gitignore_file_ends_walk:
  "sortedListing gitignoreContext
   \<and> createBuildContextTar CHR ''/'' (Some gitignoreContext) = ([(''.'', DirBody)], None)
   \<and> \<not> HasPrefix ''Dockerfile'' ''.git'' \<and> \<not> HasPrefix ''server.js'' ''.git''"
  by (simp add: gitignoreContext_def run_defs less_char_def)

text \<open>
  C3 fails on the code.  No reference of the form \<open>bundles/...\<close> has the prefix
  \<open>bundled-\<close> that \<open>cleanupImages\<close> looks for, so no built image is collected for removal.
  In the run on the example manifest the image of service \<open>web\<close> is built and saved under
  \<open>bundles/example/web:0.0.1\<close>, and the only removals are those of the two pulled images.
\<close>

theorem built_image_not_removed:
  "\<not> HasPrefix (''bundles/'' @ bundleName @ ''/'' @ serviceName @ '':'' @ bundleVersion)
        ''bundled-''
   \<and> (case Bundle exampleHost exampleEngine ''docker-compose.yml'' ''bundle.tar.gz''
              initialState of
         (r, st) \<Rightarrow>
           r = None
           \<and> ImageSave ''bundles/example/web:0.0.1'' \<in> set (calls st)
           \<and> ImageRemove ''bundles/example/web:0.0.1'' \<notin> set (calls st)
           \<and> [c \<leftarrow> calls st. \<exists>ref. c = ImageRemove ref]
               = [ImageRemove ''redis:7-alpine'', ImageRemove ''postgres:15''])"
  by (simp add: example_run HasPrefix_def)


lemma colliding_run:
  "Bundle collidingHost exampleEngine ''docker-compose.yml'' ''bundle.tar.gz'' initialState =
   (None,
    \<lparr>calls =
       [ImageInspect ''acme/api:1'', ImagePull ''acme/api:1'',
        ImageInspect ''acme-api:1'', ImagePull ''acme-api:1'',
        ImageSave ''acme/api:1'', ImageSave ''acme-api:1'',
        ImageRemove ''acme/api:1'', ImageRemove ''acme-api:1''],
     freshlyPulledImages = [(''acme/api:1'', True), (''acme-api:1'', True)],
     stdout =
       [Pulling ''acme/api:1'', Pulling ''acme-api:1'',
        Saving ''acme/api:1'' ''acme-api-1.tar'',
        Saving ''acme-api:1'' ''acme-api-1.tar'',
        RemovingPulled ''acme/api:1'', RemovingPulled ''acme-api:1''],
     written =
       Some
        [(''README.md'', FileBody Readme),
         (''docker-compose.yml'', FileBody (Bytes ''services: ...'')),
         (''images'', DirBody),
         (''images/acme-api-1.tar'', FileBody (Bytes ''image acme-api:1'')),
         (''load-images.bat'', FileBody BatScript),
         (''load-images.sh'', FileBody LoadScript)]\<rparr>)"
  by (simp add: collidingHost_def collidingCompose_def bundle_defs run_defs)

subsection \<open>The archive\<close>

lemma mapSet_keys: "fst ` set (mapSet k v m) = insert k (fst ` set m)"
  by (induction k v m rule: mapSet.induct) auto

lemma mapSet_entries: "set (mapSet k v m) \<subseteq> insert (k, v) (set m)"
  by (induction k v m rule: mapSet.induct) auto

lemma mapSet_distinct: "distinct (map fst m) \<Longrightarrow> distinct (map fst (mapSet k v m))"
proof (induction k v m rule: mapSet.induct)
  case (1 k v)
  then show ?case by simp
next
  case (2 k v k' v' kvs)
  then show ?case
    using mapSet_keys [of k v kvs] by auto
qed

lemma processServices_invariant:
  assumes step: "\<And>k m. Q m \<Longrightarrow> Q (mapSet k (sanitizeFilename k @ ''.tar'') m)"
  shows "processServices h e baseDir bn bv todo services m st = (r, services', m', st') \<Longrightarrow>
         Q m \<Longrightarrow> Q m'"
proof (induction todo arbitrary: services m st)
  case Nil
  then show ?case by simp
next
  case (Cons a rest)
  obtain serviceName service where a: "a = (serviceName, service)" by (cases a)
  obtain res service' st1 where
    P: "processServiceWithBundle h e serviceName service baseDir bn bv st = (res, service', st1)"
    by (cases "processServiceWithBundle h e serviceName service baseDir bn bv st")
  show ?case
  proof (cases res)
    case (Inl err)
    from Cons.prems(1) have "m' = m"
      unfolding a processServices.simps P Inl by simp
    with Cons.prems(2) show ?thesis by simp
  next
    case (Inr imageName)
    show ?thesis
    proof (cases "imageName = []")
      case True
      from Cons.prems(1) have
        "processServices h e baseDir bn bv rest services m st1 = (r, services', m', st')"
        unfolding a processServices.simps P Inr using True by simp
      then show ?thesis using Cons.prems(2) by (rule Cons.IH)
    next
      case False
      from Cons.prems(1) have
        "processServices h e baseDir bn bv rest (mapSet serviceName service' services)
           (mapSet imageName (sanitizeFilename imageName @ ''.tar'') m) st1
         = (r, services', m', st')"
        unfolding a processServices.simps P Inr using False by simp
      then show ?thesis using step [OF Cons.prems(2)] by (rule Cons.IH)
    qed
  qed
qed

lemma processServices_imageMap:
  assumes "processServices h e baseDir bn bv todo services [] st = (r, services', m', st')"
  shows "\<forall>x \<in> set m'. snd x = sanitizeFilename (fst x) @ ''.tar''"
proof -
  have "\<forall>x \<in> set (mapSet k (sanitizeFilename k @ ''.tar'') m).
          snd x = sanitizeFilename (fst x) @ ''.tar''"
    if "\<forall>x \<in> set m. snd x = sanitizeFilename (fst x) @ ''.tar''" for k m
    using that mapSet_entries [of k "sanitizeFilename k @ ''.tar''" m] by auto
  from processServices_invariant
    [where Q = "\<lambda>m. \<forall>x \<in> set m. snd x = sanitizeFilename (fst x) @ ''.tar''", OF this assms]
  show ?thesis by simp
qed

lemma processServices_distinct:
  assumes "processServices h e baseDir bn bv todo services [] st = (r, services', m', st')"
  shows "distinct (map fst m')"
  using processServices_invariant
    [where Q = "\<lambda>m. distinct (map fst m)", OF mapSet_distinct assms]
  by simp

lemma dirPut_keys: "fst ` set (dirPut name n es) = insert name (fst ` set es)"
  by (induction name n es rule: dirPut.induct) auto

lemma dirPut_sorted:
  "sorted_wrt (<) (map fst es) \<Longrightarrow> sorted_wrt (<) (map fst (dirPut name n es))"
proof (induction es)
  case Nil
  then show ?case by simp
next
  case (Cons a es)
  obtain name' n' where a: "a = (name', n')" by (cases a)
  show ?case
  proof (cases "name = name'")
    case True
    with Cons.prems a show ?thesis by simp
  next
    case False
    show ?thesis
    proof (cases "name < name'")
      case True
      with Cons.prems a False show ?thesis by auto
    next
      case nl: False
      with False have gt: "name' < name" by simp
      have "\<forall>x \<in> fst ` set (dirPut name n es). name' < x"
        unfolding dirPut_keys using Cons.prems a gt by auto
      with Cons a False nl show ?thesis by simp
    qed
  qed
qed

lemma dirPut_files:
  "list_all isFile es \<Longrightarrow> list_all isFile (dirPut name (FileNode d) es)"
  by (induction name "FileNode d" es rule: dirPut.induct) (auto simp: isFile_def)

lemma saveImage_ok:
  "saveImage h e imageName tarFileName st = (None, saved, st') \<Longrightarrow>
   (\<exists>bytes. saved = Some bytes) \<and> calls st' = calls st @ [ImageSave imageName]
   \<and> written st' = written st \<and> freshlyPulledImages st' = freshlyPulledImages st"
  by (auto simp: saveImage_def Let_def split: sum.splits option.splits prod.splits)

lemma saveImages_ok:
  "saveImages h e m dir st = (None, dir', st') \<Longrightarrow>
   fst ` set dir' = fst ` set dir \<union> snd ` set m
   \<and> (sorted_wrt (<) (map fst dir) \<longrightarrow> sorted_wrt (<) (map fst dir'))
   \<and> (list_all isFile dir \<longrightarrow> list_all isFile dir')
   \<and> calls st' = calls st @ map (\<lambda>x. ImageSave (fst x)) m
   \<and> written st' = written st"
proof (induction h e m dir st rule: saveImages.induct)
  case (1 h e imagesDir st)
  then show ?case by simp
next
  case (2 h e imageName tarFileName rest imagesDir st)
  obtain r saved st1 where S: "saveImage h e imageName tarFileName st = (r, saved, st1)"
    by (cases "saveImage h e imageName tarFileName st")
  with "2.prems" have r: "r = None" by (cases r) auto
  with S obtain bytes where f: "saved = Some bytes"
    and c: "calls st1 = calls st @ [ImageSave imageName]" and w: "written st1 = written st"
    using saveImage_ok by blast
  from "2.prems" S r f have
    rec: "saveImages h e rest (dirPut tarFileName (FileNode (Bytes bytes)) imagesDir) st1
          = (None, dir', st')"
    by simp
  from S r f have S': "(None, Some bytes, st1) = saveImage h e imageName tarFileName st"
    by simp
  note IH = "2.IH"(2) [OF S' refl refl refl rec]
  show ?case
  proof (intro conjI impI)
    show "fst ` set dir' = fst ` set imagesDir \<union> snd ` set ((imageName, tarFileName) # rest)"
      using IH by (simp add: dirPut_keys)
    show "sorted_wrt (<) (map fst dir')" if "sorted_wrt (<) (map fst imagesDir)"
      using IH that by (simp add: dirPut_sorted)
    show "list_all isFile dir'" if "list_all isFile imagesDir"
      using IH that by (simp add: dirPut_files)
    show "calls st' = calls st @ map (\<lambda>x. ImageSave (fst x)) ((imageName, tarFileName) # rest)"
      using IH c by simp
    show "written st' = written st"
      using IH w by simp
  qed
qed


lemma ToSlash_images:
  assumes "sep = CHR ''/'' \<or> sep = CHR 0x5C" and "CHR 0x5C \<notin> set name"
  shows "ToSlash sep (''images'' @ [sep] @ name) = ''images/'' @ name"
proof -
  have "map (\<lambda>c. if c = CHR 0x5C then CHR ''/'' else c) name = name"
    using assms(2) by (induction name) auto
  with assms(1) show ?thesis by (auto simp: ToSlash_def)
qed

lemma walkNames_images:
  "list_all isFile es \<Longrightarrow>
   walkNames (tarGzFn sep) sep ''images'' es w =
     (None, w @ map (\<lambda>x. (ToSlash sep (''images'' @ [sep] @ fst x), bodyOf (snd x))) es)"
proof (induction es arbitrary: w)
  case Nil
  show ?case by simp
next
  case (Cons a es)
  obtain name n where a: "a = (name, n)" by (cases a)
  with Cons.prems obtain d where n: "n = FileNode d" by (auto simp: isFile_def)
  from Cons.prems have rest: "list_all isFile es" by simp
  have step: "tarGzFn sep (joinRel sep ''images'' name) (FileNode d) None w =
      (None, w @ [(ToSlash sep (''images'' @ [sep] @ name), FileBody d)])"
    by (simp add: joinRel_def tarGzFn_def writeEntry_def)
  show ?case
    using Cons.IH [OF rest] by (simp add: a n step)
qed

lemma ToSlash_slash: "ToSlash CHR ''/'' p = p"
  by (simp add: ToSlash_def)

lemma ToSlash_backslash:
  "ToSlash (CHR 0x5C) ''README.md'' = ''README.md''"
  "ToSlash (CHR 0x5C) ''docker-compose.yml'' = ''docker-compose.yml''"
  "ToSlash (CHR 0x5C) ''images'' = ''images''"
  "ToSlash (CHR 0x5C) ''load-images.bat'' = ''load-images.bat''"
  "ToSlash (CHR 0x5C) ''load-images.sh'' = ''load-images.sh''"
  by (simp_all add: ToSlash_def)

lemma ToSlash_fixed:
  assumes "sep = CHR ''/'' \<or> sep = CHR 0x5C"
  shows "ToSlash sep ''README.md'' = ''README.md''"
    and "ToSlash sep ''docker-compose.yml'' = ''docker-compose.yml''"
    and "ToSlash sep ''images'' = ''images''"
    and "ToSlash sep ''load-images.bat'' = ''load-images.bat''"
    and "ToSlash sep ''load-images.sh'' = ''load-images.sh''"
  using assms ToSlash_slash ToSlash_backslash by metis+

lemma tempDirTree_listing:
  "tempDirTree imagesDir composeBytes =
     DirNode [(''README.md'', FileNode Readme),
              (''docker-compose.yml'', FileNode (Bytes composeBytes)),
              (''images'', DirNode imagesDir),
              (''load-images.bat'', FileNode BatScript),
              (''load-images.sh'', FileNode LoadScript)]"
  by (simp add: tempDirTree_def less_char_def)

lemma Walk_tempDirTree:
  assumes sep: "sep = CHR ''/'' \<or> sep = CHR 0x5C"
    and files: "list_all isFile imagesDir"
    and clean: "\<forall>x \<in> set imagesDir. CHR 0x5C \<notin> set (fst x)"
  shows "Walk (tarGzFn sep) sep (Some (tempDirTree imagesDir composeBytes)) [] =
     (None,
      [(''README.md'', FileBody Readme),
       (''docker-compose.yml'', FileBody (Bytes composeBytes)),
       (''images'', DirBody)]
      @ map (\<lambda>x. (''images/'' @ fst x, bodyOf (snd x))) imagesDir
      @ [(''load-images.bat'', FileBody BatScript), (''load-images.sh'', FileBody LoadScript)])"
proof -
  have names: "map (\<lambda>x. (ToSlash sep (''images'' @ [sep] @ fst x), bodyOf (snd x))) imagesDir
             = map (\<lambda>x. (''images/'' @ fst x, bodyOf (snd x))) imagesDir"
    using clean ToSlash_images [OF sep] by (intro map_cong) auto
  have inner: "walkNames (tarGzFn sep) sep ''images'' imagesDir w =
      (None, w @ map (\<lambda>x. (''images/'' @ fst x, bodyOf (snd x))) imagesDir)" for w
    using walkNames_images [OF files, of sep w] names by simp
  have fn: "tarGzFn sep rel n None w =
      (if rel = ''.'' then (None, w) else writeEntry sep rel n w)" for rel n w
    by (simp add: tarGzFn_def)
  show ?thesis
    unfolding tempDirTree_listing Walk_def
    by (simp add: fn inner joinRel_def writeEntry_def ToSlash_fixed [OF sep])
qed

lemma assemble_ok:
  assumes "assemble h e compose imageMap outputFile st = (None, st2)"
  shows "\<exists>imagesDir composeBytes st1 entries.
           saveImages h e imageMap [] st = (None, imagesDir, st1)
           \<and> Walk (tarGzFn (Separator h)) (Separator h)
                 (Some (tempDirTree imagesDir composeBytes)) [] = (None, entries)
           \<and> written st2 = Some entries
           \<and> calls st2 = calls st1"
  using assms
  unfolding assemble_def createTarGz_def
  by (auto split: option.splits prod.splits sum.splits)

lemma sanitized_tar_clean: "CHR 0x5C \<notin> set (sanitizeFilename ref @ ''.tar'')"
  using sanitizeFilename_clean [of ref] by (auto simp: disallowed_def)

lemma archive_entries:
  assumes sep: "Separator h = CHR ''/'' \<or> Separator h = CHR 0x5C"
    and P: "processServices h e baseDir bundleName bundleVersion todo services [] st
            = (None, services', imageMap, st1)"
    and A: "assemble h e compose imageMap outputFile st1 = (None, st2)"
  shows "\<exists>imagesDir composeBytes.
           written st2 = Some
             ([(''README.md'', FileBody Readme),
               (''docker-compose.yml'', FileBody (Bytes composeBytes)),
               (''images'', DirBody)]
              @ map (\<lambda>x. (''images/'' @ fst x, bodyOf (snd x))) imagesDir
              @ [(''load-images.bat'', FileBody BatScript),
                 (''load-images.sh'', FileBody LoadScript)])
           \<and> sorted_wrt (<) (map fst imagesDir)
           \<and> list_all isFile imagesDir
           \<and> fst ` set imagesDir = (\<lambda>ref. sanitizeFilename ref @ ''.tar'') ` fst ` set imageMap
           \<and> distinct (map fst imageMap)
           \<and> calls st2 = calls st1 @ map (\<lambda>x. ImageSave (fst x)) imageMap"
proof -
  from assemble_ok [OF A] obtain imagesDir composeBytes st' entries where
    S: "saveImages h e imageMap [] st1 = (None, imagesDir, st')"
    and W: "Walk (tarGzFn (Separator h)) (Separator h)
              (Some (tempDirTree imagesDir composeBytes)) [] = (None, entries)"
    and wr: "written st2 = Some entries" and c: "calls st2 = calls st'"
    by blast
  from saveImages_ok [OF S] have
    keys: "fst ` set imagesDir = snd ` set imageMap"
    and sorted: "sorted_wrt (<) (map fst imagesDir)"
    and files: "list_all isFile imagesDir"
    and calls: "calls st' = calls st1 @ map (\<lambda>x. ImageSave (fst x)) imageMap"
    by simp_all
  have vals: "\<forall>x \<in> set imageMap. snd x = sanitizeFilename (fst x) @ ''.tar''"
    using processServices_imageMap [OF P] .
  then have names: "snd ` set imageMap = (\<lambda>ref. sanitizeFilename ref @ ''.tar'') ` fst ` set imageMap"
    by (auto simp: image_iff)
  have clean: "\<forall>x \<in> set imagesDir. CHR 0x5C \<notin> set (fst x)"
  proof
    fix x assume "x \<in> set imagesDir"
    then have "fst x \<in> snd ` set imageMap" using keys by auto
    then obtain ref where "fst x = sanitizeFilename ref @ ''.tar''" using names by auto
    then show "CHR 0x5C \<notin> set (fst x)" using sanitized_tar_clean [of ref] by simp
  qed
  from Walk_tempDirTree [OF sep files clean, of composeBytes] W wr
  have "written st2 = Some
             ([(''README.md'', FileBody Readme),
               (''docker-compose.yml'', FileBody (Bytes composeBytes)),
               (''images'', DirBody)]
              @ map (\<lambda>x. (''images/'' @ fst x, bodyOf (snd x))) imagesDir
              @ [(''load-images.bat'', FileBody BatScript),
                 (''load-images.sh'', FileBody LoadScript)])"
    by simp
  with sorted files keys names processServices_distinct [OF P] c calls
  show ?thesis by auto
qed


text \<open>
  C4 fails on the code.  What holds of every archive that \<open>Bundle\<close> writes (on a host whose
  separator is \<open>/\<close> or \<open>\\<close>): its entries are \<open>README.md\<close>, \<open>docker-compose.yml\<close>, the
  directory \<open>images\<close>, one file entry \<open>images/<name>\<close> for each file name
  \<open><sanitized-ref>.tar\<close> of the resolved-image map, in ascending order and without
  repetition, and then \<open>load-images.bat\<close> and \<open>load-images.sh\<close>; there is no entry for the
  root, and the engine is asked once for each reference of the map to export it.  The
  entries under \<open>images/\<close> are counted by file name, not by reference: in the run on the
  manifest with the images \<open>acme/api:1\<close> and \<open>acme-api:1\<close> both references are exported,
  both exports go to \<open>acme-api-1.tar\<close>, and the archive holds that one entry, with the bytes
  of the second image.
\<close>

theorem archive_entries_by_file_name:
  "((Separator h = CHR ''/'' \<or> Separator h = CHR 0x5C)
     \<and> processServices h e baseDir bundleName bundleVersion todo services [] st
         = (None, services', imageMap, st1)
     \<and> assemble h e compose imageMap outputFile st1 = (None, st2)
    \<longrightarrow> (\<exists>imagesDir composeBytes.
           written st2 = Some
             ([(''README.md'', FileBody Readme),
               (''docker-compose.yml'', FileBody (Bytes composeBytes)),
               (''images'', DirBody)]
              @ map (\<lambda>x. (''images/'' @ fst x, bodyOf (snd x))) imagesDir
              @ [(''load-images.bat'', FileBody BatScript),
                 (''load-images.sh'', FileBody LoadScript)])
           \<and> sorted_wrt (<) (map fst imagesDir)
           \<and> list_all isFile imagesDir
           \<and> fst ` set imagesDir = (\<lambda>ref. sanitizeFilename ref @ ''.tar'') ` fst ` set imageMap
           \<and> distinct (map fst imageMap)
           \<and> calls st2 = calls st1 @ map (\<lambda>x. ImageSave (fst x)) imageMap))
   \<and> (case Bundle collidingHost exampleEngine ''docker-compose.yml'' ''bundle.tar.gz''
              initialState of
         (r, st) \<Rightarrow>
           r = None
           \<and> [c \<leftarrow> calls st. \<exists>ref. c = ImageSave ref]
               = [ImageSave ''acme/api:1'', ImageSave ''acme-api:1'']
           \<and> written st = Some
                [(''README.md'', FileBody Readme),
                 (''docker-compose.yml'', FileBody (Bytes ''services: ...'')),
                 (''images'', DirBody),
                 (''images/acme-api-1.tar'', FileBody (Bytes ''image acme-api:1'')),
                 (''load-images.bat'', FileBody BatScript),
                 (''load-images.sh'', FileBody LoadScript)])"
proof (intro conjI impI)
  assume "(Separator h = CHR ''/'' \<or> Separator h = CHR 0x5C)
     \<and> processServices h e baseDir bundleName bundleVersion todo services [] st
         = (None, services', imageMap, st1)
     \<and> assemble h e compose imageMap outputFile st1 = (None, st2)"
  then have sep: "Separator h = CHR ''/'' \<or> Separator h = CHR 0x5C"
    and P: "processServices h e baseDir bundleName bundleVersion todo services [] st
            = (None, services', imageMap, st1)"
    and A: "assemble h e compose imageMap outputFile st1 = (None, st2)"
    by simp_all
  show "\<exists>imagesDir composeBytes.
           written st2 = Some
             ([(''README.md'', FileBody Readme),
               (''docker-compose.yml'', FileBody (Bytes composeBytes)),
               (''images'', DirBody)]
              @ map (\<lambda>x. (''images/'' @ fst x, bodyOf (snd x))) imagesDir
              @ [(''load-images.bat'', FileBody BatScript),
                 (''load-images.sh'', FileBody LoadScript)])
           \<and> sorted_wrt (<) (map fst imagesDir)
           \<and> list_all isFile imagesDir
           \<and> fst ` set imagesDir = (\<lambda>ref. sanitizeFilename ref @ ''.tar'') ` fst ` set imageMap
           \<and> distinct (map fst imageMap)
           \<and> calls st2 = calls st1 @ map (\<lambda>x. ImageSave (fst x)) imageMap"
    by (rule archive_entries [OF sep P A])
next
  show "case Bundle collidingHost exampleEngine ''docker-compose.yml'' ''bundle.tar.gz''
              initialState of
         (r, st) \<Rightarrow>
           r = None
           \<and> [c \<leftarrow> calls st. \<exists>ref. c = ImageSave ref]
               = [ImageSave ''acme/api:1'', ImageSave ''acme-api:1'']
           \<and> written st = Some
                [(''README.md'', FileBody Readme),
                 (''docker-compose.yml'', FileBody (Bytes ''services: ...'')),
                 (''images'', DirBody),
                 (''images/acme-api-1.tar'', FileBody (Bytes ''image acme-api:1'')),
                 (''load-images.bat'', FileBody BatScript),
                 (''load-images.sh'', FileBody LoadScript)]"
    by (simp add: colliding_run)
qed

theorem archive_entries_by_file_name_witness:
  "\<exists>imagesDir.
     fst ` set imagesDir = {''redis-7-alpine.tar''}
     \<and> written (snd (assemble redisHost exampleEngine redisCompose
                        [(''redis:7-alpine'', ''redis-7-alpine.tar'')] ''bundle.tar.gz''
          \<lparr>calls = [ImageInspect ''redis:7-alpine'', ImagePull ''redis:7-alpine''],
           freshlyPulledImages = [(''redis:7-alpine'', True)],
           stdout = [Pulling ''redis:7-alpine''], written = None\<rparr>))
       = Some ([(''README.md'', FileBody Readme),
                (''docker-compose.yml'', FileBody (Bytes ''services: ...'')),
                (''images'', DirBody)]
               @ map (\<lambda>x. (''images/'' @ fst x, bodyOf (snd x))) imagesDir
               @ [(''load-images.bat'', FileBody BatScript),
                  (''load-images.sh'', FileBody LoadScript)])"
proof -
  let ?st1 = "\<lparr>calls = [ImageInspect ''redis:7-alpine'', ImagePull ''redis:7-alpine''],
               freshlyPulledImages = [(''redis:7-alpine'', True)],
               stdout = [Pulling ''redis:7-alpine''], written = None\<rparr>"
  let ?st2 = "\<lparr>calls = [ImageInspect ''redis:7-alpine'', ImagePull ''redis:7-alpine'',
                        ImageSave ''redis:7-alpine''],
               freshlyPulledImages = [(''redis:7-alpine'', True)],
               stdout = [Pulling ''redis:7-alpine'',
                         Saving ''redis:7-alpine'' ''redis-7-alpine.tar''],
               written = Some
                 [(''README.md'', FileBody Readme),
                  (''docker-compose.yml'', FileBody (Bytes ''services: ...'')),
                  (''images'', DirBody),
                  (''images/redis-7-alpine.tar'', FileBody (Bytes ''image redis:7-alpine'')),
                  (''load-images.bat'', FileBody BatScript),
                  (''load-images.sh'', FileBody LoadScript)]\<rparr>"
  have sep: "Separator redisHost = CHR ''/'' \<or> Separator redisHost = CHR 0x5C"
    by (simp add: redisHost_def exampleHost_def)
  have p: "processServices redisHost exampleEngine ''.'' ''example'' ''0.0.1''
             (Services redisCompose) (Services redisCompose) [] initialState
           = (None, Services redisCompose, [(''redis:7-alpine'', ''redis-7-alpine.tar'')], ?st1)"
    by (simp add: redisHost_def redisCompose_def bundle_defs run_defs)
  have a: "assemble redisHost exampleEngine redisCompose
             [(''redis:7-alpine'', ''redis-7-alpine.tar'')] ''bundle.tar.gz'' ?st1 = (None, ?st2)"
    by (simp add: redisHost_def redisCompose_def bundle_defs run_defs)
  note T = archive_entries_by_file_name
    [of redisHost exampleEngine "''.''" "''example''" "''0.0.1''" "Services redisCompose"
        "Services redisCompose" initialState "Services redisCompose"
        "[(''redis:7-alpine'', ''redis-7-alpine.tar'')]" ?st1 redisCompose "''bundle.tar.gz''" ?st2]
  from conjunct1 [OF T, THEN mp, OF conjI [OF sep conjI [OF p a]]]
  obtain imagesDir composeBytes where
    w: "written ?st2 = Some
             ([(''README.md'', FileBody Readme),
               (''docker-compose.yml'', FileBody (Bytes composeBytes)),
               (''images'', DirBody)]
              @ map (\<lambda>x. (''images/'' @ fst x, bodyOf (snd x))) imagesDir
              @ [(''load-images.bat'', FileBody BatScript),
                 (''load-images.sh'', FileBody LoadScript)])"
    and k: "fst ` set imagesDir = (\<lambda>ref. sanitizeFilename ref @ ''.tar'')
              ` fst ` set [(''redis:7-alpine'', ''redis-7-alpine.tar'')]"
    by (elim exE conjE)
  from w have cb: "composeBytes = ''services: ...''" by simp
  from k have k': "fst ` set imagesDir = {''redis-7-alpine.tar''}"
    by (simp add: sanitizeFilename_def byteReplace_def replacerPairs_def)
  show ?thesis
    using w k' unfolding a cb by (intro exI [of _ imagesDir]) simp
qed

end
